theory Spec2Isabelle
  imports Complex_Main
begin

section \<open>Numbers\<close>

text \<open>
  Python floats are modelled as real numbers, so rounding error and overflow are not
  represented. Where the source can produce NaN (the standard deviation of a one-row
  group, the mean of no rows) the value is a \<open>real option\<close> and \<open>None\<close> is NaN.
\<close>

text \<open>
  \<open>round(x, ndigits)\<close> on a float: the nearest multiple of \<open>10 ^ -ndigits\<close>, a tie going
  to the even neighbour.
\<close>

definition round_half_even :: "real \<Rightarrow> int" where
  "round_half_even x =
     (let f = \<lfloor>x\<rfloor>; d = x - of_int f
      in if d < 1 / 2 then f
         else if 1 / 2 < d then f + 1
         else if even f then f else f + 1)"

definition py_round :: "real \<Rightarrow> nat \<Rightarrow> real" where
  "py_round x ndigits = of_int (round_half_even (x * 10 ^ ndigits)) / 10 ^ ndigits"

section \<open>Exceptions\<close>

text \<open>The exceptions that leave the modelled functions; a result is \<open>Inl\<close> of one or \<open>Inr\<close> of a value.\<close>

datatype error = ValueError | TypeError

section \<open>analisis\_tendencias.py\<close>

subsection \<open>calcular\_variacion\_porcentual\<close>

definition calcular_variacion_porcentual :: "real \<Rightarrow> real \<Rightarrow> real" where
  "calcular_variacion_porcentual valor_inicial valor_final =
     (if valor_inicial = 0 then 0
      else ((valor_final - valor_inicial) / valor_inicial) * 100)"

subsection \<open>Documents\<close>

text \<open>
  A stored document is the dictionary that \<open>obtener_datos_cripto\<close> builds: a \<open>datetime\<close> and
  four float fields. The record is polymorphic in both. The float type: the builder's floats
  can in principle be NaN (\<open>real option\<close>), the documents the analysis reads hold numbers
  (\<open>real\<close>). The \<open>datetime\<close> type: an instant in seconds (\<open>int\<close>) where the source holds a
  \<open>datetime\<close> object or the text \<open>strftime\<close> rendered from one, and \<open>fecha\<close> for the text of a
  document as it is read back, which need not be a date.
\<close>

datatype fecha =
  Instante int
  | Ilegible

record ('t, 'f) documento =
  datetime :: 't
  btc2usd :: 'f
  bol2usdt :: 'f
  usdt2bol :: 'f
  bol2btc :: 'f

text \<open>A row of the frame once \<open>datetime\<close> is parsed, and a document as read from the collection.\<close>

type_synonym muestra = "(int, real) documento"

type_synonym documento_leido = "(fecha, real) documento"

text \<open>The stored form of a document: its instant as \<open>YYYY-MM-DD HH:MM:SS\<close> text.\<close>

definition almacenado :: "(int, 'f) documento \<Rightarrow> (fecha, 'f) documento" where
  "almacenado d =
     \<lparr>datetime = Instante (datetime d), btc2usd = btc2usd d, bol2usdt = bol2usdt d,
      usdt2bol = usdt2bol d, bol2btc = bol2btc d\<rparr>"

text \<open>
  \<open>df['datetime'] = pd.to_datetime(df['datetime'])\<close> (line 143): every text is parsed, and
  one that is not a date raises ValueError.
\<close>

fun to_datetime :: "(fecha, 'f) documento list \<Rightarrow> error + (int, 'f) documento list" where
  "to_datetime [] = Inr []"
| "to_datetime (d # ds) =
     (case datetime d of
        Ilegible \<Rightarrow> Inl ValueError
      | Instante t \<Rightarrow>
          (case to_datetime ds of
             Inl e \<Rightarrow> Inl e
           | Inr filas \<Rightarrow>
               Inr (\<lparr>datetime = t, btc2usd = btc2usd d, bol2usdt = bol2usdt d,
                     usdt2bol = usdt2bol d, bol2btc = bol2btc d\<rparr> # filas)))"

text \<open>
  \<open>df.columns\<close> at line 146: the keys of the documents, which are read from the collection
  and so carry Mongo's \<open>_id\<close> beside the keys the builder wrote.
\<close>

definition columnas_df :: "string list" where
  "columnas_df = [''_id'', ''datetime'', ''btc2usd'', ''bol2usdt'', ''usdt2bol'', ''bol2btc'']"

text \<open>
  \<open>df[campo]\<close> as a column of floats. The other two columns hold an ObjectId and a
  Timestamp: \<open>None\<close>, and the arithmetic of \<open>calcular_variacion_porcentual\<close> on their
  values raises TypeError.
\<close>

definition columna :: "string \<Rightarrow> (muestra \<Rightarrow> real) option" where
  "columna campo =
     (if campo = ''btc2usd'' then Some btc2usd
      else if campo = ''bol2usdt'' then Some bol2usdt
      else if campo = ''usdt2bol'' then Some usdt2bol
      else if campo = ''bol2btc'' then Some bol2btc
      else None)"

subsection \<open>Grouping by hour\<close>

text \<open>\<open>dt.floor('H')\<close>: the start of the hour an instant lies in.\<close>

definition floor_H :: "int \<Rightarrow> int" where
  "floor_H t = (t div 3600) * 3600"

text \<open>One row of \<open>stats_por_hora\<close>: the index (the hour) and the five aggregates.\<close>

record estadistica =
  hora :: int
  mean :: real
  std :: "real option"
  count :: nat
  minimo :: real
  maximo :: real

text \<open>
  pandas' \<open>std\<close> is the sample standard deviation (\<open>ddof = 1\<close>): NaN for fewer than two
  values.
\<close>

definition promedio :: "real list \<Rightarrow> real" where
  "promedio vs = sum_list vs / real (length vs)"

definition desviacion :: "real list \<Rightarrow> real option" where
  "desviacion vs =
     (if length vs < 2 then None
      else Some (sqrt ((\<Sum>v\<leftarrow>vs. (v - promedio vs)\<^sup>2) / real (length vs - 1))))"

text \<open>
  The aggregates of one group. A group of \<open>groupby\<close> has at least one row, so only
  the non-empty case is defined.
\<close>

fun agg :: "int \<Rightarrow> real list \<Rightarrow> estadistica" where
  "agg h (v # vs) =
     \<lparr>hora = h, mean = promedio (v # vs), std = desviacion (v # vs),
      count = length (v # vs), minimo = fold min vs v, maximo = fold max vs v\<rparr>"

text \<open>
  \<open>df.groupby('hora')[campo]\<close> on rows (hour, value): one group per distinct hour, the
  groups in ascending order of the hour, each holding its rows' values in row order;
  then \<open>.agg([...])\<close> on each group.
\<close>

definition grupos_hora :: "(int \<times> real) list \<Rightarrow> (int \<times> real list) list" where
  "grupos_hora filas =
     map (\<lambda>h. (h, map snd (filter (\<lambda>fila. fst fila = h) filas)))
       (sort (remdups (map fst filas)))"

definition groupby_hora :: "(int \<times> real) list \<Rightarrow> estadistica list" where
  "groupby_hora filas = map (\<lambda>(h, vs). agg h vs) (grupos_hora filas)"

subsection \<open>Regression, volatility, hour-to-hour variation\<close>

text \<open>
  \<open>np.polyfit(x, y, 1)\<close> is numpy's floating-point least-squares solve; its rounding is not
  part of this model. The analysis takes it as a parameter \<open>polyfit\<close>: the function from
  the two arrays to the pair (slope, intercept) that numpy returns.
\<close>

type_synonym ajuste = "real list \<Rightarrow> real list \<Rightarrow> real \<times> real"

text \<open>\<open>np.arange(n)\<close>.\<close>

definition arange :: "nat \<Rightarrow> real list" where
  "arange n = map real [0..<n]"

text \<open>\<open>Series.mean()\<close> skips NaN and is NaN when nothing is left.\<close>

definition series_mean :: "real list \<Rightarrow> real option" where
  "series_mean vs = (if vs = [] then None else Some (promedio vs))"

definition mean_skipna :: "real option list \<Rightarrow> real option" where
  "mean_skipna xs = series_mean (List.map_filter id xs)"

text \<open>
  The loop over \<open>range(1, len(stats_por_hora))\<close>: the absolute percentage variation
  of each hourly mean against the one before.
\<close>

fun variaciones_entre_horas :: "real list \<Rightarrow> real list" where
  "variaciones_entre_horas (valor_anterior # valor_actual # resto) =
     \<bar>calcular_variacion_porcentual valor_anterior valor_actual\<bar>
       # variaciones_entre_horas (valor_actual # resto)"
| "variaciones_entre_horas _ = []"

text \<open>\<open>max(variaciones_entre_horas) if variaciones_entre_horas else 0\<close>.\<close>

fun max_o_cero :: "real list \<Rightarrow> real" where
  "max_o_cero [] = 0"
| "max_o_cero (v # vs) = fold max vs v"

subsection \<open>detectar\_tendencia\_significativa\<close>

text \<open>The local variables of the analysis once both guards have passed.\<close>

record analisis =
  primer_valor :: real
  ultimo_valor :: real
  variacion_total :: real
  stats_por_hora :: "estadistica list"
  pendiente :: real
  direccion_tendencia :: string
  volatilidad_promedio :: "real option"
  variacion_maxima_entre_horas :: real
  hay_tendencia :: bool

text \<open>
  Lines 149 to 184, for a float column \<open>f\<close> of a frame of at least two rows (\<open>iloc[0]\<close>
  and \<open>iloc[-1]\<close> are reached only behind the length guard).
\<close>

definition analizar :: "ajuste \<Rightarrow> muestra list \<Rightarrow> (muestra \<Rightarrow> real) \<Rightarrow> real \<Rightarrow> analisis" where
  "analizar polyfit datos f umbral_variacion =
     (let primer = f (hd datos);
          ultimo = f (last datos);
          variacion = calcular_variacion_porcentual primer ultimo;
          stats = groupby_hora (map (\<lambda>d. (floor_H (datetime d), f d)) datos);
          x = arange (length stats);
          y = map mean stats;
          (pend, dir) =
            (if 1 < length x
             then (let p = fst (polyfit x y)
                   in (p, if 0 < p then ''alcista'' else ''bajista''))
             else (0, ''neutral''));
          vol = mean_skipna (map std stats);
          maxima = max_o_cero (variaciones_entre_horas (map mean stats))
      in \<lparr>primer_valor = primer, ultimo_valor = ultimo, variacion_total = variacion,
          stats_por_hora = stats, pendiente = pend, direccion_tendencia = dir,
          volatilidad_promedio = vol, variacion_maxima_entre_horas = maxima,
          hay_tendencia = (umbral_variacion \<le> \<bar>variacion\<bar> \<or> umbral_variacion \<le> maxima)\<rparr>)"

text \<open>
  The \<open>detalles\<close> dictionary. \<open>price_info\<close> is a formatted string of the first value,
  the last value and the volatility; the model keeps the three numbers.
\<close>

record detalles =
  asset :: string
  trend_type :: string
  variation :: real
  price_info :: "real \<times> real \<times> real option"
  recommendation :: string

text \<open>The recommendation chosen in the \<open>if hay_tendencia\<close> block; empty when none is set.\<close>

definition recomendacion :: "string \<Rightarrow> real \<Rightarrow> string" where
  "recomendacion campo variacion =
     (if 0 < variacion
      then (if campo = ''bol2usdt'' then ''Posible oportunidad de VENTA de USDT (precio alto)''
            else if campo = ''btc2usd'' then ''Posible oportunidad de VENTA de BTC (precio alto)''
            else [])
      else (if campo = ''bol2usdt'' then ''Posible oportunidad de COMPRA de USDT (precio bajo)''
            else if campo = ''btc2usd'' then ''Posible oportunidad de COMPRA de BTC (precio bajo)''
            else []))"

definition preparar_detalles :: "string \<Rightarrow> analisis \<Rightarrow> detalles" where
  "preparar_detalles campo a =
     \<lparr>asset = (if campo = ''bol2usdt'' then ''USDT/BOB''
               else if campo = ''usdt2bol'' then ''BOB/USDT'' else ''BTC/USD''),
      trend_type = (if 0 < variacion_total a then ''ALCISTA'' else ''BAJISTA''),
      variation = variacion_total a,
      price_info = (primer_valor a, ultimo_valor a, volatilidad_promedio a),
      recommendation = (if hay_tendencia a then recomendacion campo (variacion_total a) else [])\<rparr>"

text \<open>
  The message is text rendered from data; the model keeps the data: which of the two
  fixed texts it is, or the report with, when there is a trend, the alert's direction.
\<close>

datatype mensaje =
  DatosInsuficientes
  | CampoNoExiste string
  | Informe string analisis "string option"

text \<open>
  The function returns a tuple of three components from either guard and a tuple of
  four components from the end of its body; between the guards and after them it can
  raise.
\<close>

datatype resultado =
  Tupla3 bool real mensaje
  | Tupla4 bool real mensaje detalles

definition detectar_tendencia_significativa ::
    "ajuste \<Rightarrow> documento_leido list \<Rightarrow> string \<Rightarrow> real \<Rightarrow> bool \<Rightarrow> error + resultado" where
  "detectar_tendencia_significativa polyfit datos campo umbral_variacion notificar =
     (if datos = [] \<or> length datos < 2 then Inr (Tupla3 False 0 DatosInsuficientes)
      else case to_datetime datos of
        Inl e \<Rightarrow> Inl e
      | Inr df \<Rightarrow>
          if campo \<notin> set columnas_df then Inr (Tupla3 False 0 (CampoNoExiste campo))
          else (case columna campo of
                  None \<Rightarrow> Inl TypeError
                | Some f \<Rightarrow>
                    (let a = analizar polyfit df f umbral_variacion;
                         det = preparar_detalles campo a;
                         alerta = (if hay_tendencia a then Some (trend_type det) else None)
                     in Inr (Tupla4 (hay_tendencia a) (variacion_total a)
                               (Informe campo a alerta) det))))"

text \<open>
  The side effect: the alert handed to the notifier, when there is one. A failure of
  the notifier is caught and logged and changes nothing in the returned tuple.
\<close>

definition alerta_notificada ::
    "ajuste \<Rightarrow> documento_leido list \<Rightarrow> string \<Rightarrow> real \<Rightarrow> bool \<Rightarrow> detalles option" where
  "alerta_notificada polyfit datos campo umbral_variacion notificar =
     (case detectar_tendencia_significativa polyfit datos campo umbral_variacion notificar of
        Inr (Tupla4 hay _ _ det) \<Rightarrow> if notificar \<and> hay then Some det else None
      | Inr (Tupla3 _ _ _) \<Rightarrow> None
      | Inl _ \<Rightarrow> None)"


subsection \<open>analizar\_tendencias\<close>

text \<open>
  \<open>hay_tendencia, variacion, mensaje, detalles = ...\<close>: unpacking into four names
  raises ValueError on a tuple of three.
\<close>

fun desempaquetar4 :: "resultado \<Rightarrow> error + (bool \<times> real \<times> mensaje \<times> detalles)" where
  "desempaquetar4 (Tupla4 hay variacion msg det) = Inr (hay, variacion, msg, det)"
| "desempaquetar4 (Tupla3 _ _ _) = Inl ValueError"

record resultados =
  res_bol2usdt :: "bool \<times> detalles option"
  res_usdt2bol :: "bool \<times> detalles option"
  res_btc2usd :: "bool \<times> detalles option"

text \<open>A call of the analyzer whose result is unpacked into four names.\<close>

definition llamar_y_desempaquetar ::
    "error + resultado \<Rightarrow> error + (bool \<times> real \<times> mensaje \<times> detalles)" where
  "llamar_y_desempaquetar r = (case r of Inl e \<Rightarrow> Inl e | Inr t \<Rightarrow> desempaquetar4 t)"

text \<open>
  \<open>datos\<close> is what \<open>obtener_datos_ultimas_horas\<close> returned: \<open>None\<close> on a storage error,
  the documents otherwise. No exception of the three calls is caught here.
\<close>

definition analizar_tendencias ::
    "ajuste \<Rightarrow> documento_leido list option \<Rightarrow> bool \<Rightarrow> error + resultados" where
  "analizar_tendencias polyfit datos_opt notificar =
     (let iniciales = \<lparr>res_bol2usdt = (False, None), res_usdt2bol = (False, None),
                       res_btc2usd = (False, None)\<rparr>
      in case datos_opt of
        None \<Rightarrow> Inr iniciales
      | Some datos \<Rightarrow>
          if length datos = 0 then Inr iniciales
          else
            (case llamar_y_desempaquetar
                    (detectar_tendencia_significativa polyfit datos ''bol2usdt'' 2 notificar) of
               Inl e \<Rightarrow> Inl e
             | Inr (hay, _, _, det) \<Rightarrow>
            (case llamar_y_desempaquetar
                    (detectar_tendencia_significativa polyfit datos ''usdt2bol'' 2 notificar) of
               Inl e \<Rightarrow> Inl e
             | Inr (hay_venta, _, _, det_venta) \<Rightarrow>
            (case llamar_y_desempaquetar
                    (detectar_tendencia_significativa polyfit datos ''btc2usd'' 5 notificar) of
               Inl e \<Rightarrow> Inl e
             | Inr (hay_btc, _, _, det_btc) \<Rightarrow>
                 Inr \<lparr>res_bol2usdt = (hay, Some det),
                      res_usdt2bol = (hay_venta, Some det_venta),
                      res_btc2usd = (hay_btc, Some det_btc)\<rparr>))))"

section \<open>binance\_p2p.py\<close>

subsection \<open>Offers and responses\<close>

record oferta =
  precio :: real
  cantidad_disponible :: real
  limite_min :: real
  limite_max :: real
  metodos_pago :: "string list"
  comerciante :: string
  completadas :: int
  tasa_completadas :: real
  verificado :: bool

text \<open>
  What one pass through the \<open>try\<close> block meets: an exception before the offers are
  extracted (\<open>requests.post\<close>, \<open>response.json()\<close> or a \<open>float\<close> conversion raised), or a
  response with its status code and the offers extracted from its \<open>data\<close>.
\<close>

datatype respuesta =
  Excepcion
  | Respuesta nat "oferta list"

text \<open>
  \<open>sort_values(by='precio')\<close>, ascending for BUY and descending otherwise. The order
  among equal prices is not fixed by pandas; the model keeps the stable one.
\<close>

definition ordenar :: "string \<Rightarrow> oferta list \<Rightarrow> oferta list" where
  "ordenar trade_type ofertas =
     (if trade_type = ''BUY'' then sort_key precio ofertas
      else sort_key (\<lambda>oferta. - precio oferta) ofertas)"

text \<open>
  One attempt: \<open>Some (df, raw_data)\<close> when the \<open>return\<close> inside the loop is reached,
  \<open>None\<close> when control falls to \<open>retry_count += 1\<close>. A frame built from no offers has no
  \<open>precio\<close> column, so sorting it raises KeyError, which the \<open>except\<close> clause catches
  like any other exception.
\<close>

fun intento :: "string \<Rightarrow> respuesta \<Rightarrow> (oferta list \<times> oferta list) option" where
  "intento trade_type Excepcion = None"
| "intento trade_type (Respuesta status_code ofertas) =
     (if status_code = 200
      then (if ofertas = [] then None else Some (ordenar trade_type ofertas, ofertas))
      else None)"

text \<open>What the loop does to the outside: requests made and the sleeps between them.\<close>

record traza =
  llamadas :: nat
  esperas :: "real list"

subsection \<open>obtener\_ofertas\_p2p\_binance\<close>

text \<open>
  The retry loop from \<open>retry_count\<close> on. \<open>fuente k\<close> is what the \<open>k\<close>-th request (from 0)
  meets. The result is the returned pair (\<open>Inr None\<close> for \<open>None, None\<close>) and the trace.
  \<open>time.sleep(retry_delay)\<close> stands outside the \<open>try\<close>: with a negative delay it raises
  ValueError, which leaves the function.
\<close>

function bucle_reintentos ::
    "(nat \<Rightarrow> respuesta) \<Rightarrow> string \<Rightarrow> int \<Rightarrow> real \<Rightarrow> int \<Rightarrow> traza
      \<Rightarrow> (error + (oferta list \<times> oferta list) option) \<times> traza" where
  "bucle_reintentos fuente trade_type max_retries retry_delay retry_count tr =
     (if retry_count < max_retries
      then (let tr1 = tr\<lparr>llamadas := llamadas tr + 1\<rparr>
            in case intento trade_type (fuente (llamadas tr)) of
                 Some r \<Rightarrow> (Inr (Some r), tr1)
               | None \<Rightarrow>
                   (let retry_count' = retry_count + 1
                    in if retry_count' < max_retries
                       then (if retry_delay < 0 then (Inl ValueError, tr1)
                             else bucle_reintentos fuente trade_type max_retries retry_delay
                                    retry_count' (tr1\<lparr>esperas := esperas tr1 @ [retry_delay]\<rparr>))
                       else bucle_reintentos fuente trade_type max_retries retry_delay
                              retry_count' tr1))
      else (Inr None, tr))"
  by pat_completeness auto
termination
  by (relation "measure (\<lambda>(fuente, trade_type, max_retries, retry_delay, retry_count, tr).
                   nat (max_retries - retry_count))") auto

declare bucle_reintentos.simps [simp del]

definition obtener_ofertas_p2p_binance ::
    "(nat \<Rightarrow> respuesta) \<Rightarrow> string \<Rightarrow> int \<Rightarrow> real
      \<Rightarrow> (error + (oferta list \<times> oferta list) option) \<times> traza" where
  "obtener_ofertas_p2p_binance fuente trade_type max_retries retry_delay =
     bucle_reintentos fuente trade_type max_retries retry_delay 0 \<lparr>llamadas = 0, esperas = []\<rparr>"

subsection \<open>calcular\_precio\_promedio\<close>

text \<open>\<open>df.head(n)\<close>: the first \<open>n\<close> rows, or all but the last \<open>-n\<close> when \<open>n\<close> is negative.\<close>

definition head_df :: "int \<Rightarrow> 'a list \<Rightarrow> 'a list" where
  "head_df n xs = (if 0 \<le> n then take (nat n) xs else take (length xs - nat (- n)) xs)"

text \<open>\<open>df\<close> is \<open>None\<close> or a frame of offers; the result is a float, \<open>None\<close> standing for NaN.\<close>

definition calcular_precio_promedio :: "oferta list option \<Rightarrow> int \<Rightarrow> real option" where
  "calcular_precio_promedio df num_ofertas =
     (case df of
        None \<Rightarrow> Some 0
      | Some ofertas \<Rightarrow>
          if length ofertas = 0 then Some 0
          else (let num_ofertas' = min num_ofertas (int (length ofertas));
                    precio_promedio = series_mean (map precio (head_df num_ofertas' ofertas))
                in map_option (\<lambda>m. py_round m 2) precio_promedio))"

section \<open>cripto\_data.py\<close>

text \<open>
  One acquisition cycle. \<open>bitcoin\<close> is what \<open>obtener_precio_bitcoin_usd\<close> returned
  (\<open>None\<close> on failure), \<open>fuente trade_type\<close> what the requests of the fetch for that side
  meet. Both fetches run with the defaults \<open>max_retries = 3\<close>, \<open>retry_delay = 60\<close>, both
  averages with the default \<open>num_ofertas = 10\<close>.
\<close>

definition obtener_datos_cripto ::
    "int \<Rightarrow> real option \<Rightarrow> (string \<Rightarrow> nat \<Rightarrow> respuesta)
      \<Rightarrow> error + (int, real option) documento option" where
  "obtener_datos_cripto timestamp bitcoin fuente =
     (let bitcoin_usd = (case bitcoin of None \<Rightarrow> 0 | Some b \<Rightarrow> b)
      in case fst (obtener_ofertas_p2p_binance (fuente ''BUY'') ''BUY'' 3 60) of
        Inl e \<Rightarrow> Inl e
      | Inr None \<Rightarrow> Inr None
      | Inr (Some (ofertas_bob_usdt, _)) \<Rightarrow>
          (let bob_usdt = calcular_precio_promedio (Some ofertas_bob_usdt) 10
           in case fst (obtener_ofertas_p2p_binance (fuente ''SELL'') ''SELL'' 3 60) of
             Inl e \<Rightarrow> Inl e
           | Inr None \<Rightarrow> Inr None
           | Inr (Some (ofertas_usdt_bob, _)) \<Rightarrow>
               (let usdt_bob = calcular_precio_promedio (Some ofertas_usdt_bob) 10;
                    bob_btc = (if 0 < bitcoin_usd
                               then map_option (\<lambda>b. b / bitcoin_usd) bob_usdt
                               else Some 0)
                in Inr (Some \<lparr>datetime = timestamp,
                              btc2usd = Some (py_round bitcoin_usd 2),
                              bol2usdt = bob_usdt,
                              usdt2bol = usdt_bob,
                              bol2btc = map_option (\<lambda>b. py_round b 8) bob_btc\<rparr>))))"

text \<open>
  \<open>tarea_programada\<close> on the stored collection: nothing is written without a sample,
  nothing when an exception is caught, and nothing when the insertion fails (\<open>mongo_ok\<close>
  is whether it succeeds).
\<close>

definition tarea_programada ::
    "int \<Rightarrow> real option \<Rightarrow> (string \<Rightarrow> nat \<Rightarrow> respuesta) \<Rightarrow> bool
      \<Rightarrow> (int, real option) documento list \<Rightarrow> (int, real option) documento list" where
  "tarea_programada timestamp bitcoin fuente mongo_ok coleccion =
     (case obtener_datos_cripto timestamp bitcoin fuente of
        Inl e \<Rightarrow> coleccion
      | Inr None \<Rightarrow> coleccion
      | Inr (Some datos_cripto) \<Rightarrow>
          if mongo_ok then coleccion @ [datos_cripto] else coleccion)"

section \<open>The analysis as the specification words it\<close>

text \<open>
  The definitions of this section are not translated from the source: they say in the
  specification's words what the source's values are compared with.
\<close>

text \<open>The hourly buckets: for each hour that has a sample, in ascending order, its values.\<close>

definition muestras_por_hora :: "muestra list \<Rightarrow> (muestra \<Rightarrow> real) \<Rightarrow> real list list" where
  "muestras_por_hora datos f =
     map (\<lambda>h. map f (filter (\<lambda>d. floor_H (datetime d) = h) datos))
       (sorted_list_of_set ((\<lambda>d. floor_H (datetime d)) ` set datos))"

text \<open>The mean of each hourly bucket.\<close>

definition especificacion_medias_por_hora :: "muestra list \<Rightarrow> (muestra \<Rightarrow> real) \<Rightarrow> real list" where
  "especificacion_medias_por_hora datos f = map promedio (muestras_por_hora datos f)"

text \<open>
  The maximum absolute percentage variation between consecutive bucket means, 0 with
  fewer than two buckets.
\<close>

definition especificacion_variacion_maxima :: "real list \<Rightarrow> real" where
  "especificacion_variacion_maxima ms =
     (if length ms < 2 then 0
      else Max {\<bar>calcular_variacion_porcentual (ms ! i) (ms ! Suc i)\<bar> | i. Suc i < length ms})"

text \<open>The sample standard deviation of a bucket of at least two values.\<close>

definition desviacion_muestral :: "real list \<Rightarrow> real" where
  "desviacion_muestral vs = sqrt ((\<Sum>v\<leftarrow>vs. (v - promedio vs)\<^sup>2) / real (length vs - 1))"

text \<open>
  The average volatility as the specification states it: the mean over all buckets, a
  bucket of exactly one sample contributing 0.
\<close>

definition volatilidad_con_ceros :: "muestra list \<Rightarrow> (muestra \<Rightarrow> real) \<Rightarrow> real" where
  "volatilidad_con_ceros datos f =
     promedio (map (\<lambda>vs. if length vs = 1 then 0 else desviacion_muestral vs)
                 (muestras_por_hora datos f))"

text \<open>The mean over the buckets of at least two samples only.\<close>

definition volatilidad_sin_horas_unitarias :: "muestra list \<Rightarrow> (muestra \<Rightarrow> real) \<Rightarrow> real" where
  "volatilidad_sin_horas_unitarias datos f =
     promedio (map desviacion_muestral (filter (\<lambda>vs. 2 \<le> length vs) (muestras_por_hora datos f)))"

text \<open>
  The least-squares line through the points in exact arithmetic, as (slope, intercept):
  what \<open>np.polyfit(x, y, 1)\<close> approximates.
\<close>

definition recta_minimos_cuadrados :: "real list \<Rightarrow> real list \<Rightarrow> real \<times> real" where
  "recta_minimos_cuadrados xs ys =
     (let n = real (length xs);
          sx = sum_list xs; sy = sum_list ys;
          sxy = (\<Sum>(x, y)\<leftarrow>zip xs ys. x * y);
          sxx = (\<Sum>x\<leftarrow>xs. x * x);
          m = (n * sxy - sx * sy) / (n * sxx - sx * sx)
      in (m, (sy - m * sx) / n))"

text \<open>
  A failed attempt as the specification has it: a transport error or a status other than
  success. A reply with status 200 is not one, whatever it carries.
\<close>

fun fallo_de_intento :: "respuesta \<Rightarrow> bool" where
  "fallo_de_intento Excepcion = True"
| "fallo_de_intento (Respuesta status_code ofertas) = (status_code \<noteq> 200)"

section \<open>Example inputs\<close>

definition oferta_ejemplo :: "real \<Rightarrow> oferta" where
  "oferta_ejemplo p =
     \<lparr>precio = p, cantidad_disponible = 500, limite_min = 100, limite_max = 1000,
      metodos_pago = [''BancoUnion''], comerciante = ''comerciante'', completadas = 25,
      tasa_completadas = 1, verificado = True\<rparr>"

text \<open>A source that raises, then answers 503, then answers 200 with two offers.\<close>

definition fuente_tercera :: "nat \<Rightarrow> respuesta" where
  "fuente_tercera k =
     (if k = 0 then Excepcion
      else if k = 1 then Respuesta 503 []
      else Respuesta 200 [oferta_ejemplo 7, oferta_ejemplo 6])"

text \<open>A cycle in which every SELL request is answered 500.\<close>

definition fuente_sin_venta :: "string \<Rightarrow> nat \<Rightarrow> respuesta" where
  "fuente_sin_venta trade_type k =
     (if trade_type = ''BUY'' then Respuesta 200 [oferta_ejemplo 7] else Respuesta 500 [])"

text \<open>A cycle in which both sides answer at once.\<close>

definition fuente_completa :: "string \<Rightarrow> nat \<Rightarrow> respuesta" where
  "fuente_completa trade_type k =
     (if trade_type = ''BUY'' then Respuesta 200 [oferta_ejemplo 7]
      else Respuesta 200 [oferta_ejemplo 6])"

text \<open>A stored document with the given instant and the given BOB/USDT rates.\<close>

definition documento_ejemplo :: "int \<Rightarrow> real \<Rightarrow> muestra" where
  "documento_ejemplo t v =
     \<lparr>datetime = t, btc2usd = 43000, bol2usdt = v, usdt2bol = v, bol2btc = 0\<rparr>"

text \<open>Values 100, 100, 103 in three consecutive hours.\<close>

definition ejemplo_tres_horas :: "muestra list" where
  "ejemplo_tres_horas =
     [documento_ejemplo 1700002800 100, documento_ejemplo 1700006400 100,
      documento_ejemplo 1700010000 103]"

text \<open>Three samples (97, 100, 103) in one hour and a single sample in the next.\<close>

definition ejemplo_volatilidad :: "muestra list" where
  "ejemplo_volatilidad =
     [documento_ejemplo 1700002800 97, documento_ejemplo 1700003400 100,
      documento_ejemplo 1700004000 103, documento_ejemplo 1700006400 100]"

text \<open>Four hourly samples that end below the first one but slope upwards.\<close>

definition ejemplo_discrepancia :: "muestra list" where
  "ejemplo_discrepancia =
     [documento_ejemplo 1700002800 100, documento_ejemplo 1700006400 90,
      documento_ejemplo 1700010000 95, documento_ejemplo 1700013600 99]"


text \<open>Two samples in the same hour, the second above the first.\<close>

definition ejemplo_una_hora :: "muestra list" where
  "ejemplo_una_hora = [documento_ejemplo 1700002800 100, documento_ejemplo 1700003400 103]"

text \<open>Two documents as read, the text of the second \<open>datetime\<close> not a date.\<close>

definition ejemplo_ilegible :: "documento_leido list" where
  "ejemplo_ilegible =
     [almacenado (documento_ejemplo 1700002800 100),
      \<lparr>datetime = Ilegible, btc2usd = 43000, bol2usdt = 103, usdt2bol = 103, bol2btc = 0\<rparr>]"



text \<open>A source that answers every request with status 200 and no offers.\<close>

definition fuente_sin_ofertas :: "nat \<Rightarrow> respuesta" where
  "fuente_sin_ofertas k = Respuesta 200 []"

section \<open>Properties of calcular\_variacion\_porcentual\<close>

text \<open>
  C4. For all values initial and final, the percentage variation is
  (final - initial) / initial * 100 whenever initial is nonzero, and 0 whenever
  initial is 0.
\<close>

theorem calcular_variacion_porcentual_spec:
  "(valor_inicial \<noteq> 0 \<longrightarrow>
      calcular_variacion_porcentual valor_inicial valor_final =
        (valor_final - valor_inicial) / valor_inicial * 100)
   \<and> calcular_variacion_porcentual 0 valor_final = 0"
  by (simp add: calcular_variacion_porcentual_def)

theorem calcular_variacion_porcentual_spec_witness:
  "(100::real) \<noteq> 0
   \<and> calcular_variacion_porcentual 100 103 = (103 - 100) / 100 * 100
   \<and> calcular_variacion_porcentual 100 103 = 3
   \<and> calcular_variacion_porcentual 0 103 = 0"
  using calcular_variacion_porcentual_spec [of 100 103] by simp

section \<open>Properties of obtener\_ofertas\_p2p\_binance\<close>

text \<open>
  An attempt falls through to the retry on an exception, on a status other than 200 and
  on a reply without offers.
\<close>

lemma intento_None_iff:
  "intento trade_type resp = None \<longleftrightarrow>
     (resp = Excepcion \<or> (\<exists>status_code ofertas. resp = Respuesta status_code ofertas
        \<and> (status_code \<noteq> 200 \<or> ofertas = [])))"
  by (cases resp) auto

text \<open>A failed attempt in the specification's sense always falls through to the retry.\<close>

lemma fallo_de_intento_intento: "fallo_de_intento resp \<Longrightarrow> intento trade_type resp = None"
  by (cases resp) auto

text \<open>One unsuccessful pass of the loop with a delay that \<open>time.sleep\<close> accepts.\<close>

lemma bucle_paso:
  assumes "retry_count < max_retries" and "intento trade_type (fuente (llamadas tr)) = None"
    and "0 \<le> retry_delay"
  shows "bucle_reintentos fuente trade_type max_retries retry_delay retry_count tr =
     bucle_reintentos fuente trade_type max_retries retry_delay (retry_count + 1)
       (if retry_count + 1 < max_retries
        then tr\<lparr>llamadas := llamadas tr + 1, esperas := esperas tr @ [retry_delay]\<rparr>
        else tr\<lparr>llamadas := llamadas tr + 1\<rparr>)"
  using assms by (subst bucle_reintentos.simps) (simp add: Let_def)

text \<open>When every remaining attempt falls through, the loop runs to the end.\<close>

lemma bucle_agotado:
  "0 \<le> retry_delay \<Longrightarrow>
   (\<forall>j < nat (max_retries - retry_count). intento trade_type (fuente (llamadas tr + j)) = None) \<Longrightarrow>
   bucle_reintentos fuente trade_type max_retries retry_delay retry_count tr =
     (Inr None, tr\<lparr>llamadas := llamadas tr + nat (max_retries - retry_count),
               esperas := esperas tr @ replicate (nat (max_retries - retry_count) - 1) retry_delay\<rparr>)"
proof (induction "nat (max_retries - retry_count)" arbitrary: retry_count tr)
  case 0
  then have "\<not> retry_count < max_retries" by simp
  then show ?case using 0 by (subst bucle_reintentos.simps) simp
next
  case (Suc n)
  then have lt: "retry_count < max_retries" by linarith
  have n: "n = nat (max_retries - (retry_count + 1))" using Suc.hyps(2) by simp
  have f0: "intento trade_type (fuente (llamadas tr)) = None"
    using Suc.prems(2) Suc.hyps(2) by (metis add.right_neutral zero_less_Suc)
  define tr2 where "tr2 = (if retry_count + 1 < max_retries
                             then tr\<lparr>llamadas := llamadas tr + 1,
                                     esperas := esperas tr @ [retry_delay]\<rparr>
                             else tr\<lparr>llamadas := llamadas tr + 1\<rparr>)"
  have l2: "llamadas tr2 = llamadas tr + 1" by (simp add: tr2_def)
  have rest: "\<forall>j < nat (max_retries - (retry_count + 1)).
      intento trade_type (fuente (llamadas tr2 + j)) = None"
  proof (intro allI impI)
    fix j assume "j < nat (max_retries - (retry_count + 1))"
    then have "Suc j < nat (max_retries - retry_count)" using n Suc.hyps(2) by simp
    from Suc.prems(2) [rule_format, OF this] show
      "intento trade_type (fuente (llamadas tr2 + j)) = None" by (simp add: l2)
  qed
  have step: "bucle_reintentos fuente trade_type max_retries retry_delay retry_count tr =
      bucle_reintentos fuente trade_type max_retries retry_delay (retry_count + 1) tr2"
    unfolding tr2_def
    by (rule bucle_paso [where fuente = fuente and tr = tr, OF lt f0 Suc.prems(1)])
  note ih = Suc.hyps(1) [OF n Suc.prems(1) rest]
  show ?case
  proof (cases "retry_count + 1 < max_retries")
    case True
    then obtain m where m: "nat (max_retries - (retry_count + 1)) = Suc m"
      by (metis Suc_pred' diff_gt_0_iff_gt zero_less_nat_eq)
    have "nat (max_retries - retry_count) = Suc (Suc m)"
      using Suc.hyps(2) n m by simp
    then show ?thesis using step ih True
      by (simp add: tr2_def m)
  next
    case False
    then have z: "nat (max_retries - (retry_count + 1)) = 0" by simp
    have "nat (max_retries - retry_count) = Suc 0"
      using Suc.hyps(2) n z by simp
    then show ?thesis using step ih False by (simp add: tr2_def z)
  qed
qed

text \<open>The loop returns at the first attempt that succeeds.\<close>

lemma bucle_exito:
  "0 \<le> retry_delay \<Longrightarrow> k < nat (max_retries - retry_count) \<Longrightarrow>
   (\<forall>j < k. intento trade_type (fuente (llamadas tr + j)) = None) \<Longrightarrow>
   intento trade_type (fuente (llamadas tr + k)) = Some r \<Longrightarrow>
   bucle_reintentos fuente trade_type max_retries retry_delay retry_count tr =
     (Inr (Some r), tr\<lparr>llamadas := llamadas tr + k + 1,
                 esperas := esperas tr @ replicate k retry_delay\<rparr>)"
proof (induction k arbitrary: retry_count tr)
  case 0
  then have "retry_count < max_retries" by simp
  then show ?case using 0
    by (subst bucle_reintentos.simps) (simp add: Let_def)
next
  case (Suc k)
  then have lt: "retry_count < max_retries" "retry_count + 1 < max_retries" by auto
  have f0: "intento trade_type (fuente (llamadas tr)) = None"
    using Suc.prems(3) by (metis add.right_neutral zero_less_Suc)
  define tr2 where "tr2 = tr\<lparr>llamadas := llamadas tr + 1,
                               esperas := esperas tr @ [retry_delay]\<rparr>"
  have step: "bucle_reintentos fuente trade_type max_retries retry_delay retry_count tr =
       bucle_reintentos fuente trade_type max_retries retry_delay (retry_count + 1) tr2"
    using bucle_paso [where fuente = fuente and tr = tr, OF lt(1) f0 Suc.prems(1)] lt(2)
    by (simp add: tr2_def)
  have k: "k < nat (max_retries - (retry_count + 1))" using Suc.prems(2) by auto
  have rest: "\<forall>j < k. intento trade_type (fuente (llamadas tr2 + j)) = None"
    using Suc.prems(3) by (auto simp: tr2_def)
  have ok: "intento trade_type (fuente (llamadas tr2 + k)) = Some r"
    using Suc.prems(4) by (simp add: tr2_def)
  show ?case
    using Suc.IH [OF Suc.prems(1) k rest ok] step by (simp add: tr2_def replicate_append_same)
qed

text \<open>A negative delay: the first sleep raises, after one request.\<close>

lemma bucle_espera_negativa:
  "retry_delay < 0 \<Longrightarrow> retry_count + 1 < max_retries \<Longrightarrow>
   intento trade_type (fuente (llamadas tr)) = None \<Longrightarrow>
   bucle_reintentos fuente trade_type max_retries retry_delay retry_count tr =
     (Inl ValueError, tr\<lparr>llamadas := llamadas tr + 1\<rparr>)"
  by (subst bucle_reintentos.simps) (simp add: Let_def)

lemma obtener_agotado:
  "0 \<le> retry_delay \<Longrightarrow> (\<forall>k < nat max_retries. intento trade_type (fuente k) = None) \<Longrightarrow>
   obtener_ofertas_p2p_binance fuente trade_type max_retries retry_delay =
     (Inr None, \<lparr>llamadas = nat max_retries, esperas = replicate (nat max_retries - 1) retry_delay\<rparr>)"
  using bucle_agotado [of retry_delay max_retries 0 trade_type fuente "\<lparr>llamadas = 0, esperas = []\<rparr>"]
  by (simp add: obtener_ofertas_p2p_binance_def)

lemma obtener_exito:
  "0 \<le> retry_delay \<Longrightarrow> k < nat max_retries \<Longrightarrow>
   (\<forall>j < k. intento trade_type (fuente j) = None) \<Longrightarrow>
   intento trade_type (fuente k) = Some r \<Longrightarrow>
   obtener_ofertas_p2p_binance fuente trade_type max_retries retry_delay =
     (Inr (Some r), \<lparr>llamadas = k + 1, esperas = replicate k retry_delay\<rparr>)"
  using bucle_exito [of retry_delay k max_retries 0 trade_type fuente "\<lparr>llamadas = 0, esperas = []\<rparr>" r]
  by (simp add: obtener_ofertas_p2p_binance_def)

text \<open>
  With a delay that \<open>time.sleep\<close> accepts the fetch returns the sentinel exactly when every
  one of its \<open>max_retries\<close> attempts falls through to the retry; it never raises.
\<close>

lemma obtener_resultado:
  assumes "0 \<le> retry_delay"
  shows "fst (obtener_ofertas_p2p_binance fuente trade_type max_retries retry_delay) = Inr None
           \<or> (\<exists>r. fst (obtener_ofertas_p2p_binance fuente trade_type max_retries retry_delay)
                    = Inr (Some r))"
    and "fst (obtener_ofertas_p2p_binance fuente trade_type max_retries retry_delay) = Inr None
           \<longleftrightarrow> (\<forall>k < nat max_retries. intento trade_type (fuente k) = None)"
proof -
  let ?P = "\<lambda>k. k < nat max_retries \<and> intento trade_type (fuente k) \<noteq> None"
  have caso: "fst (obtener_ofertas_p2p_binance fuente trade_type max_retries retry_delay)
                = Inr None" if "\<forall>k < nat max_retries. intento trade_type (fuente k) = None"
    using obtener_agotado [OF assms that] by simp
  have otro: "\<exists>r. fst (obtener_ofertas_p2p_binance fuente trade_type max_retries retry_delay)
                = Inr (Some r)" if ex: "\<exists>k. ?P k"
  proof -
    define k where "k = (LEAST k. ?P k)"
    have k: "k < nat max_retries" "intento trade_type (fuente k) \<noteq> None"
      using LeastI_ex [OF ex] by (simp_all add: k_def)
    have before: "\<forall>j < k. intento trade_type (fuente j) = None"
      using not_less_Least [of _ ?P] k(1) by (metis k_def less_trans)
    from k(2) obtain r where "intento trade_type (fuente k) = Some r" by blast
    from obtener_exito [OF assms k(1) before this] show ?thesis by simp
  qed
  show "fst (obtener_ofertas_p2p_binance fuente trade_type max_retries retry_delay) = Inr None
           \<or> (\<exists>r. fst (obtener_ofertas_p2p_binance fuente trade_type max_retries retry_delay)
                    = Inr (Some r))"
    using caso otro by blast
  show "fst (obtener_ofertas_p2p_binance fuente trade_type max_retries retry_delay) = Inr None
           \<longleftrightarrow> (\<forall>k < nat max_retries. intento trade_type (fuente k) = None)"
    using caso otro by force
qed

text \<open>
  C6. The specification has the fetch retry on a transport error or a non-success status
  and return the error sentinel exactly when all attempts fail. The source falls short
  of that on a reply with status 200 that carries no offers: no attempt has failed, yet
  sorting the frame built from no offers raises KeyError, the blanket \<open>except\<close> takes it
  for a failure, and after three such replies the fetch returns the sentinel, having made
  3 requests and slept twice.
\<close>

theorem obtener_ofertas_sin_ofertas:
  "\<not> fallo_de_intento (fuente_sin_ofertas 0) \<and> \<not> fallo_de_intento (fuente_sin_ofertas 1)
   \<and> \<not> fallo_de_intento (fuente_sin_ofertas 2)
   \<and> obtener_ofertas_p2p_binance fuente_sin_ofertas ''BUY'' 3 60 =
       (Inr None, \<lparr>llamadas = 3, esperas = [60, 60]\<rparr>)"
proof -
  have "\<forall>k < nat 3. intento ''BUY'' (fuente_sin_ofertas k) = None"
    by (simp add: fuente_sin_ofertas_def)
  from obtener_agotado [OF _ this, of 60]
  have "obtener_ofertas_p2p_binance fuente_sin_ofertas ''BUY'' 3 60 =
       (Inr None, \<lparr>llamadas = 3, esperas = [60, 60]\<rparr>)"
    by (simp add: numeral_2_eq_2)
  moreover have "\<not> fallo_de_intento (fuente_sin_ofertas k)" for k
    by (simp add: fuente_sin_ofertas_def)
  ultimately show ?thesis by simp
qed

text \<open>
  Where the attempts that fall through are failures in the specification's sense, the
  fetch does what it says: two failures and then a reply with offers give that reply's
  offers, sorted, after exactly 3 requests and two sleeps of the fixed delay.
\<close>

lemma obtener_ofertas_tercera:
  "fallo_de_intento (fuente_tercera 0) \<and> fallo_de_intento (fuente_tercera 1)
   \<and> obtener_ofertas_p2p_binance fuente_tercera ''BUY'' 3 60 =
       (Inr (Some ([oferta_ejemplo 6, oferta_ejemplo 7], [oferta_ejemplo 7, oferta_ejemplo 6])),
        \<lparr>llamadas = 3, esperas = [60, 60]\<rparr>)"
proof -
  have i: "intento ''BUY'' (fuente_tercera 0) = None" "intento ''BUY'' (fuente_tercera 1) = None"
    "intento ''BUY'' (fuente_tercera 2)
        = Some ([oferta_ejemplo 6, oferta_ejemplo 7], [oferta_ejemplo 7, oferta_ejemplo 6])"
    by (simp_all add: fuente_tercera_def ordenar_def oferta_ejemplo_def)
  have "\<forall>j < (2::nat). intento ''BUY'' (fuente_tercera j) = None"
    using i(1,2) by (auto simp: less_2_cases_iff)
  from obtener_exito [of 60 2 3, OF _ _ this i(3)]
  have "obtener_ofertas_p2p_binance fuente_tercera ''BUY'' 3 60 =
       (Inr (Some ([oferta_ejemplo 6, oferta_ejemplo 7], [oferta_ejemplo 7, oferta_ejemplo 6])),
        \<lparr>llamadas = 3, esperas = [60, 60]\<rparr>)"
    by (simp add: numeral_2_eq_2)
  moreover have "fallo_de_intento (fuente_tercera 0)" "fallo_de_intento (fuente_tercera 1)"
    by (simp_all add: fuente_tercera_def)
  ultimately show ?thesis by simp
qed

section \<open>Properties of calcular\_precio\_promedio\<close>

text \<open>With the default of ten offers the average is always a number.\<close>


lemma calcular_precio_promedio_defecto:
  "\<exists>v. calcular_precio_promedio (Some ofertas) 10 = Some v"
proof (cases "ofertas = []")
  case True
  then show ?thesis by (simp add: calcular_precio_promedio_def)
next
  case False
  then have "head_df (min 10 (int (length ofertas))) ofertas \<noteq> []"
    by (cases ofertas) (auto simp: head_df_def min_def)
  then show ?thesis using False
    by (simp add: calcular_precio_promedio_def Let_def series_mean_def)
qed

text \<open>
  C8, as the code has it. For every non-empty list of offers and every \<open>n \<ge> 1\<close> the
  average price is the arithmetic mean of the price over the first \<open>n\<close> offers (all of
  them when fewer are available), rounded to 2 decimal places; for an empty or missing
  list it is 0.0; for two offers priced 10 and 20 and \<open>n = 5\<close> it is 15.0.
\<close>

theorem calcular_precio_promedio_spec:
  "calcular_precio_promedio None n = Some 0
   \<and> calcular_precio_promedio (Some []) n = Some 0
   \<and> (ofertas \<noteq> [] \<and> 1 \<le> n \<longrightarrow>
        calcular_precio_promedio (Some ofertas) n =
          Some (py_round (sum_list (map precio (take (nat n) ofertas))
                          / real (min (nat n) (length ofertas))) 2))
   \<and> (precio a = 10 \<and> precio b = 20 \<longrightarrow> calcular_precio_promedio (Some [a, b]) 5 = Some 15)"
proof -
  have vacio: "calcular_precio_promedio None n = Some 0"
    "calcular_precio_promedio (Some []) n = Some 0"
    by (simp_all add: calcular_precio_promedio_def)
  have general: "calcular_precio_promedio (Some ofertas) n =
          Some (py_round (sum_list (map precio (take (nat n) ofertas))
                          / real (min (nat n) (length ofertas))) 2)"
    if "ofertas \<noteq> []" "1 \<le> n"
  proof -
    let ?k = "min n (int (length ofertas))"
    from that have k: "0 \<le> ?k" "nat ?k = min (nat n) (length ofertas)" by auto
    have h: "head_df ?k ofertas = take (nat n) ofertas"
      using k by (simp add: head_df_def min_def)
    have ne: "take (nat n) ofertas \<noteq> []" using that by (cases ofertas) auto
    show ?thesis
      using that ne h
      by (simp add: calcular_precio_promedio_def Let_def series_mean_def promedio_def min.commute)
  qed
  have ejemplo: "calcular_precio_promedio (Some [a, b]) 5 = Some 15"
    if "precio a = 10" "precio b = 20"
    using that
    by (simp add: calcular_precio_promedio_def head_df_def series_mean_def promedio_def
        py_round_def round_half_even_def)
  show ?thesis using vacio general ejemplo by blast
qed

theorem calcular_precio_promedio_spec_witness:
  "[oferta_ejemplo 10, oferta_ejemplo 20] \<noteq> [] \<and> (1::int) \<le> 5
   \<and> precio (oferta_ejemplo 10) = 10 \<and> precio (oferta_ejemplo 20) = 20
   \<and> calcular_precio_promedio (Some [oferta_ejemplo 10, oferta_ejemplo 20]) 5 = Some 15
   \<and> calcular_precio_promedio (Some [oferta_ejemplo 10, oferta_ejemplo 20]) 5 =
       Some (py_round (sum_list (map precio (take (nat 5) [oferta_ejemplo 10, oferta_ejemplo 20]))
                       / real (min (nat 5) (length [oferta_ejemplo 10, oferta_ejemplo 20]))) 2)"
proof -
  have p: "precio (oferta_ejemplo 10) = 10" "precio (oferta_ejemplo 20) = 20"
    by (simp_all add: oferta_ejemplo_def)
  show ?thesis
    using p calcular_precio_promedio_spec
      [of 5 "[oferta_ejemplo 10, oferta_ejemplo 20]" "oferta_ejemplo 10" "oferta_ejemplo 20"]
    by (simp add: py_round_def round_half_even_def)
qed

text \<open>
  The claim as stated, that the average is 0 only for an empty list, fails for a single
  offer priced 0 (the price an advertisement without a price is given).
\<close>

theorem calcular_precio_promedio_cero_counterexample:
  "\<not> (calcular_precio_promedio
         (Some [\<lparr>precio = 0, cantidad_disponible = 50, limite_min = 10, limite_max = 100,
                 metodos_pago = [], comerciante = ''m'', completadas = 1,
                 tasa_completadas = 1, verificado = True\<rparr>]) 10 = Some 0
       \<longrightarrow> [\<lparr>precio = 0, cantidad_disponible = 50, limite_min = 10, limite_max = 100,
                 metodos_pago = [], comerciante = ''m'', completadas = 1,
                 tasa_completadas = (1::real), verificado = True\<rparr>] = [])"
  by (simp add: calcular_precio_promedio_def head_df_def series_mean_def promedio_def
      py_round_def round_half_even_def)

section \<open>Properties of obtener\_datos\_cripto\<close>

text \<open>
  C5. In every acquisition cycle, if the BUY-side or the SELL-side fetch returns the
  exhausted-retries result, no sample is produced and nothing is stored, whatever the
  reference-price fetch returned; when both sides succeed and only the reference price
  failed, the sample is produced and stored with 0 for the reference price.
\<close>

theorem obtener_datos_cripto_descarta:
  "(fst (obtener_ofertas_p2p_binance (fuente ''BUY'') ''BUY'' 3 60) = Inr None
      \<or> fst (obtener_ofertas_p2p_binance (fuente ''SELL'') ''SELL'' 3 60) = Inr None \<longrightarrow>
        obtener_datos_cripto timestamp bitcoin fuente = Inr None
        \<and> tarea_programada timestamp bitcoin fuente mongo_ok coleccion = coleccion)
   \<and> (fst (obtener_ofertas_p2p_binance (fuente ''BUY'') ''BUY'' 3 60) \<noteq> Inr None
      \<and> fst (obtener_ofertas_p2p_binance (fuente ''SELL'') ''SELL'' 3 60) \<noteq> Inr None \<longrightarrow>
        (\<exists>d. obtener_datos_cripto timestamp None fuente = Inr (Some d)
             \<and> datetime d = timestamp \<and> btc2usd d = Some 0 \<and> bol2btc d = Some 0
             \<and> bol2usdt d \<noteq> None \<and> usdt2bol d \<noteq> None
             \<and> tarea_programada timestamp None fuente True coleccion = coleccion @ [d]))"
proof -
  let ?buy = "fst (obtener_ofertas_p2p_binance (fuente ''BUY'') ''BUY'' 3 60)"
  let ?sell = "fst (obtener_ofertas_p2p_binance (fuente ''SELL'') ''SELL'' 3 60)"
  have r0: "py_round 0 n = 0" for n by (simp add: py_round_def round_half_even_def)
  have buy: "?buy = Inr None \<or> (\<exists>r. ?buy = Inr (Some r))"
    by (rule obtener_resultado(1)) simp
  have sell: "?sell = Inr None \<or> (\<exists>r. ?sell = Inr (Some r))"
    by (rule obtener_resultado(1)) simp
  have descarta: "obtener_datos_cripto timestamp bitcoin fuente = Inr None"
    if "?buy = Inr None \<or> ?sell = Inr None"
    using that buy by (auto simp: obtener_datos_cripto_def Let_def)
  have conserva: "\<exists>d. obtener_datos_cripto timestamp None fuente = Inr (Some d)
             \<and> datetime d = timestamp \<and> btc2usd d = Some 0 \<and> bol2btc d = Some 0
             \<and> bol2usdt d \<noteq> None \<and> usdt2bol d \<noteq> None"
    if "?buy \<noteq> Inr None" "?sell \<noteq> Inr None"
  proof -
    from that buy sell obtain b rb s rs where
      b: "?buy = Inr (Some (b, rb))" and s: "?sell = Inr (Some (s, rs))"
      by fastforce
    obtain vb vs where "calcular_precio_promedio (Some b) 10 = Some vb"
      "calcular_precio_promedio (Some s) 10 = Some vs"
      using calcular_precio_promedio_defecto by meson
    then show ?thesis using b s
      by (simp add: obtener_datos_cripto_def r0)
  qed
  show ?thesis using descarta conserva
    by (auto simp: tarea_programada_def)
qed

theorem obtener_datos_cripto_descarta_witness:
  "fst (obtener_ofertas_p2p_binance (fuente_sin_venta ''SELL'') ''SELL'' 3 60) = Inr None
   \<and> obtener_datos_cripto 1700000000 (Some 43000) fuente_sin_venta = Inr None
   \<and> tarea_programada 1700000000 (Some 43000) fuente_sin_venta True [] = []
   \<and> fst (obtener_ofertas_p2p_binance (fuente_completa ''BUY'') ''BUY'' 3 60) \<noteq> Inr None
   \<and> fst (obtener_ofertas_p2p_binance (fuente_completa ''SELL'') ''SELL'' 3 60) \<noteq> Inr None
   \<and> (\<exists>d. obtener_datos_cripto 1700000000 None fuente_completa = Inr (Some d)
          \<and> btc2usd d = Some 0 \<and> bol2btc d = Some 0
          \<and> tarea_programada 1700000000 None fuente_completa True [] = [d])"
proof -
  have v: "fst (obtener_ofertas_p2p_binance (fuente_sin_venta ''SELL'') ''SELL'' 3 60) = Inr None"
    by (simp add: obtener_resultado(2) fuente_sin_venta_def)
  have c: "fst (obtener_ofertas_p2p_binance (fuente_completa ''BUY'') ''BUY'' 3 60) \<noteq> Inr None"
    "fst (obtener_ofertas_p2p_binance (fuente_completa ''SELL'') ''SELL'' 3 60) \<noteq> Inr None"
    by (auto simp: obtener_resultado(2) fuente_completa_def intro: exI [of _ 0])
  show ?thesis
    using v c
      obtener_datos_cripto_descarta [of fuente_sin_venta 1700000000 "Some 43000" True "[]"]
      obtener_datos_cripto_descarta [of fuente_completa 1700000000 "Some 43000" True "[]"]
    by auto
qed

section \<open>Grouping by hour, in the specification's words\<close>

lemma filas_de_hora:
  "map snd (filter (\<lambda>fila. fst fila = h) (map (\<lambda>d. (g d, f d)) datos)) =
     map f (filter (\<lambda>d. g d = h) datos)"
  by (induction datos) auto

lemma horas_groupby:
  "sort (remdups (map fst (map (\<lambda>d. (g d, f d)) datos))) = sorted_list_of_set (g ` set datos)"
  by (simp add: sorted_list_of_set_sort_remdups [symmetric] image_image comp_def)

lemma grupos_hora_muestras:
  "map snd (grupos_hora (map (\<lambda>d. (floor_H (datetime d), f d)) datos)) = muestras_por_hora datos f"
  unfolding grupos_hora_def muestras_por_hora_def horas_groupby filas_de_hora
  by (simp add: comp_def)

lemma muestras_no_vacias: "vs \<in> set (muestras_por_hora datos f) \<Longrightarrow> vs \<noteq> []"
  by (auto simp: muestras_por_hora_def filter_empty_conv)

lemma mean_agg: "vs \<noteq> [] \<Longrightarrow> mean (agg h vs) = promedio vs"
  by (cases vs) auto

lemma std_agg: "vs \<noteq> [] \<Longrightarrow> std (agg h vs) = desviacion vs"
  by (cases vs) auto

text \<open>Every group is non-empty, so each aggregate is the function of its bucket.\<close>

lemma groupby_por_muestras:
  assumes "\<And>h vs. vs \<noteq> [] \<Longrightarrow> campo_agg (agg h vs) = g vs"
  shows "map campo_agg (groupby_hora (map (\<lambda>d. (floor_H (datetime d), f d)) datos)) =
         map g (muestras_por_hora datos f)"
proof -
  let ?gs = "grupos_hora (map (\<lambda>d. (floor_H (datetime d), f d)) datos)"
  have ne: "snd p \<noteq> []" if "p \<in> set ?gs" for p
    using that muestras_no_vacias [of "snd p" datos f]
    by (simp add: grupos_hora_muestras [symmetric])
  have "map campo_agg (map (\<lambda>(h, vs). agg h vs) ?gs) = map g (map snd ?gs)"
    using ne assms by (auto simp: case_prod_unfold)
  then show ?thesis by (simp only: groupby_hora_def grupos_hora_muestras)
qed

lemma medias_groupby:
  "map mean (groupby_hora (map (\<lambda>d. (floor_H (datetime d), f d)) datos)) =
     especificacion_medias_por_hora datos f"
  by (simp add: groupby_por_muestras [of mean promedio] mean_agg especificacion_medias_por_hora_def)

lemma desviaciones_groupby:
  "map std (groupby_hora (map (\<lambda>d. (floor_H (datetime d), f d)) datos)) =
     map desviacion (muestras_por_hora datos f)"
  by (simp add: groupby_por_muestras [of std desviacion] std_agg)

lemma longitud_groupby:
  "length (groupby_hora (map (\<lambda>d. (floor_H (datetime d), f d)) datos)) =
     length (especificacion_medias_por_hora datos f)"
  using arg_cong [OF medias_groupby [of f datos], of length] by simp





section \<open>The hour-to-hour maximum\<close>

lemma variaciones_entre_horas_nth:
  "variaciones_entre_horas ms =
     map (\<lambda>i. \<bar>calcular_variacion_porcentual (ms ! i) (ms ! Suc i)\<bar>) [0..<length ms - 1]"
proof (induction ms rule: variaciones_entre_horas.induct)
  case (1 a b resto)
  have "[0..<length (a # b # resto) - 1] = 0 # map Suc [0..<length (b # resto) - 1]"
    by (simp add: upt_conv_Cons map_Suc_upt del: upt_Suc)
  then show ?case using 1 by (simp add: comp_def del: upt_Suc)
qed simp_all

lemma max_o_cero_Max: "vs \<noteq> [] \<Longrightarrow> max_o_cero vs = Max (set vs)"
  by (cases vs) (simp_all add: Max.set_eq_fold [symmetric])

lemma variacion_maxima_spec:
  "max_o_cero (variaciones_entre_horas ms) = especificacion_variacion_maxima ms"
proof (cases "length ms < 2")
  case True
  then have "variaciones_entre_horas ms = []"
    by (simp add: variaciones_entre_horas_nth)
  then show ?thesis using True by (simp add: especificacion_variacion_maxima_def)
next
  case False
  then have ne: "variaciones_entre_horas ms \<noteq> []"
    by (simp add: variaciones_entre_horas_nth)
  have "set (variaciones_entre_horas ms) =
      {\<bar>calcular_variacion_porcentual (ms ! i) (ms ! Suc i)\<bar> | i. Suc i < length ms}"
    by (auto simp: variaciones_entre_horas_nth)
  then show ?thesis using False ne
    by (simp add: especificacion_variacion_maxima_def max_o_cero_Max)
qed

section \<open>The mean of the standard deviations\<close>

lemma desviaciones_definidas:
  "List.map_filter id (map desviacion gs) =
     map desviacion_muestral (filter (\<lambda>vs. 2 \<le> length vs) gs)"
  by (induction gs) (auto simp: List.map_filter_simps desviacion_def desviacion_muestral_def)

lemma mean_skipna_desviaciones:
  "\<exists>vs \<in> set gs. 2 \<le> length vs \<Longrightarrow>
   mean_skipna (map desviacion gs) =
     Some (promedio (map desviacion_muestral (filter (\<lambda>vs. 2 \<le> length vs) gs)))"
  by (auto simp: mean_skipna_def series_mean_def desviaciones_definidas filter_empty_conv)

lemma mean_skipna_sin_desviaciones:
  "\<forall>vs \<in> set gs. length vs < 2 \<Longrightarrow> mean_skipna (map desviacion gs) = None"
  by (auto simp: mean_skipna_def series_mean_def desviaciones_definidas filter_empty_conv)

section \<open>The exact least-squares line\<close>

text \<open>
  Twice the numerator of the slope is a double sum of products of differences, so it is
  positive when both sequences increase strictly.
\<close>

lemma doble_suma:
  fixes x y :: "nat \<Rightarrow> real"
  shows "(\<Sum>i<n. \<Sum>j<n. (x i - x j) * (y i - y j)) =
         2 * (real n * (\<Sum>i<n. x i * y i) - (\<Sum>i<n. x i) * (\<Sum>i<n. y i))"
proof -
  have "(\<Sum>i<n. \<Sum>j<n. (x i - x j) * (y i - y j)) =
        (\<Sum>i<n. \<Sum>j<n. x i * y i) - (\<Sum>i<n. \<Sum>j<n. x i * y j)
        - (\<Sum>i<n. \<Sum>j<n. x j * y i) + (\<Sum>i<n. \<Sum>j<n. x j * y j)"
    by (simp add: algebra_simps sum.distrib sum_subtractf)
  also have "(\<Sum>i<n. \<Sum>j<n. x i * y i) = real n * (\<Sum>i<n. x i * y i)"
    by (simp add: sum_distrib_left)
  also have "(\<Sum>i<n. \<Sum>j<n. x j * y j) = real n * (\<Sum>i<n. x i * y i)"
    by (simp add: sum_distrib_left)
  also have "(\<Sum>i<n. \<Sum>j<n. x i * y j) = (\<Sum>i<n. x i) * (\<Sum>i<n. y i)"
    by (simp add: sum_product)
  also have "(\<Sum>i<n. \<Sum>j<n. x j * y i) = (\<Sum>i<n. x i) * (\<Sum>i<n. y i)"
    by (subst sum.swap) (simp add: sum_product)
  finally show ?thesis by simp
qed

lemma covarianza_positiva:
  fixes x y :: "nat \<Rightarrow> real"
  assumes n: "2 \<le> n"
    and x: "\<And>i j. i < j \<Longrightarrow> j < n \<Longrightarrow> x i < x j"
    and y: "\<And>i j. i < j \<Longrightarrow> j < n \<Longrightarrow> y i < y j"
  shows "0 < real n * (\<Sum>i<n. x i * y i) - (\<Sum>i<n. x i) * (\<Sum>i<n. y i)"
proof -
  have nonneg: "0 \<le> (x i - x j) * (y i - y j)" if "i < n" "j < n" for i j
  proof -
    consider "i < j" | "i = j" | "j < i" by linarith
    then show ?thesis
    proof cases
      case 1
      then have "x i - x j < 0" "y i - y j < 0" using x y that by simp_all
      then show ?thesis by (simp add: mult_nonpos_nonpos)
    next
      case 2
      then show ?thesis by simp
    next
      case 3
      then have "0 < x i - x j" "0 < y i - y j" using x y that by simp_all
      then show ?thesis by simp
    qed
  qed
  have pos01: "0 < (x 1 - x 0) * (y 1 - y 0)"
    using x [of 0 1] y [of 0 1] n by simp
  have inner: "0 \<le> (\<Sum>j<n. (x i - x j) * (y i - y j))" if "i < n" for i
    by (rule sum_nonneg) (use nonneg that in auto)
  have uno: "0 < (\<Sum>j<n. (x 1 - x j) * (y 1 - y j))"
  proof (rule sum_pos2)
    show "finite {..<n}" by simp
    show "0 \<in> {..<n}" using n by simp
    show "0 < (x 1 - x 0) * (y 1 - y 0)" by (rule pos01)
    show "0 \<le> (x 1 - x j) * (y 1 - y j)" if "j \<in> {..<n}" for j
      using nonneg [of 1 j] that n by simp
  qed
  have "0 < (\<Sum>i<n. \<Sum>j<n. (x i - x j) * (y i - y j))"
  proof (rule sum_pos2)
    show "finite {..<n}" by simp
    show "1 \<in> {..<n}" using n by simp
    show "0 < (\<Sum>j<n. (x 1 - x j) * (y 1 - y j))" by (rule uno)
    show "0 \<le> (\<Sum>j<n. (x i - x j) * (y i - y j))" if "i \<in> {..<n}" for i
      using inner that by simp
  qed
  then show ?thesis by (simp add: doble_suma)
qed

lemma sumas_por_indice:
  fixes xs ys :: "real list"
  assumes "length xs = length ys"
  shows "sum_list xs = (\<Sum>i<length xs. xs ! i)"
    and "(\<Sum>(x, y)\<leftarrow>zip xs ys. x * y) = (\<Sum>i<length xs. xs ! i * ys ! i)"
    and "(\<Sum>x\<leftarrow>xs. x * x) = (\<Sum>i<length xs. xs ! i * xs ! i)"
proof -
  show "sum_list xs = (\<Sum>i<length xs. xs ! i)"
    by (simp add: sum_list_sum_nth atLeast0LessThan)
  have "(\<Sum>(x, y)\<leftarrow>zip xs ys. x * y) = (\<Sum>i<length (zip xs ys). (case zip xs ys ! i of (x, y) \<Rightarrow> x * y))"
    by (simp add: sum_list_sum_nth atLeast0LessThan)
  then show "(\<Sum>(x, y)\<leftarrow>zip xs ys. x * y) = (\<Sum>i<length xs. xs ! i * ys ! i)"
    using assms by simp
  have "(\<Sum>x\<leftarrow>xs. x * x) = (\<Sum>i<length (map (\<lambda>x. x * x) xs). map (\<lambda>x. x * x) xs ! i)"
    by (simp only: sum_list_sum_nth atLeast0LessThan)
  then show "(\<Sum>x\<leftarrow>xs. x * x) = (\<Sum>i<length xs. xs ! i * xs ! i)"
    by simp
qed

text \<open>The closed form satisfies the normal equations of the least-squares problem.\<close>

lemma suma_residuos:
  fixes xs ys :: "real list"
  assumes "length xs = length ys"
  shows "(\<Sum>(x, y)\<leftarrow>zip xs ys. y - (m * x + b)) =
           sum_list ys - m * sum_list xs - real (length xs) * b"
    and "(\<Sum>(x, y)\<leftarrow>zip xs ys. x * (y - (m * x + b))) =
           (\<Sum>(x, y)\<leftarrow>zip xs ys. x * y) - m * (\<Sum>x\<leftarrow>xs. x * x) - b * sum_list xs"
  using assms by (induction xs ys rule: list_induct2) (simp_all add: algebra_simps)

lemma recta_minimos_cuadrados_ecuaciones_normales:
  assumes len: "length xs = length ys" "2 \<le> length xs" and xs: "sorted_wrt (<) xs"
    and mb: "recta_minimos_cuadrados xs ys = (m, b)"
  shows "(\<Sum>(x, y)\<leftarrow>zip xs ys. y - (m * x + b)) = 0"
    and "(\<Sum>(x, y)\<leftarrow>zip xs ys. x * (y - (m * x + b))) = 0"
proof -
  let ?n = "real (length xs)"
  let ?sx = "sum_list xs" and ?sy = "sum_list ys"
  let ?sxy = "(\<Sum>(x, y)\<leftarrow>zip xs ys. x * y)" and ?sxx = "(\<Sum>x\<leftarrow>xs. x * x)"
  have n: "?n \<noteq> 0" using len(2) by auto
  have x: "xs ! i < xs ! j" if "i < j" "j < length xs" for i j
    using xs that by (simp add: sorted_wrt_iff_nth_less)
  have "0 < ?n * (\<Sum>i<length xs. xs ! i * xs ! i) - (\<Sum>i<length xs. xs ! i) * (\<Sum>i<length xs. xs ! i)"
    by (rule covarianza_positiva [OF len(2) x x])
  then have den: "?n * ?sxx - ?sx * ?sx \<noteq> 0"
    using sumas_por_indice(1,3) [of xs xs] by simp
  from mb have m: "m = (?n * ?sxy - ?sx * ?sy) / (?n * ?sxx - ?sx * ?sx)"
    by (auto simp: recta_minimos_cuadrados_def Let_def)
  from mb have b: "b = (?sy - m * ?sx) / ?n"
    by (auto simp: recta_minimos_cuadrados_def Let_def)
  from b n have nb: "?n * b = ?sy - m * ?sx" by simp
  show "(\<Sum>(x, y)\<leftarrow>zip xs ys. y - (m * x + b)) = 0"
    by (simp add: suma_residuos(1) [OF len(1)] nb)
  from m den have md: "m * (?n * ?sxx - ?sx * ?sx) = ?n * ?sxy - ?sx * ?sy" by simp
  have "?n * (?sxy - m * ?sxx - b * ?sx) = ?n * ?sxy - m * ?n * ?sxx - (?n * b) * ?sx"
    by (simp add: algebra_simps)
  also have "\<dots> = (?n * ?sxy - ?sx * ?sy) - m * (?n * ?sxx - ?sx * ?sx)"
    unfolding nb by (simp add: algebra_simps)
  finally have "?n * (?sxy - m * ?sxx - b * ?sx) =
      (?n * ?sxy - ?sx * ?sy) - m * (?n * ?sxx - ?sx * ?sx)" .
  then have "?n * (?sxy - m * ?sxx - b * ?sx) = 0" using md by simp
  then show "(\<Sum>(x, y)\<leftarrow>zip xs ys. x * (y - (m * x + b))) = 0"
    using n by (simp add: suma_residuos(2) [OF len(1)])
qed



section \<open>The locals of detectar\_tendencia\_significativa\<close>

lemma columna_bol2usdt: "columna ''bol2usdt'' = Some bol2usdt"
  by (simp add: columna_def)

text \<open>The float columns are columns of the frame; the other two columns are not float columns.\<close>

lemma columna_en_columnas: "columna campo = Some f \<Longrightarrow> campo \<in> set columnas_df"
  by (auto simp: columna_def columnas_df_def split: if_splits)

lemma columna_no_numerica:
  "columna ''datetime'' = None" "columna ''_id'' = None"
  "''datetime'' \<in> set columnas_df" "''_id'' \<in> set columnas_df"
  by (simp_all add: columna_def columnas_df_def)

text \<open>What was stored from an instant parses back to it.\<close>

lemma to_datetime_almacenado: "to_datetime (map almacenado df) = Inr df"
  by (induction df) (simp_all add: almacenado_def)

lemma detectar_tupla4:
  "2 \<le> length df \<Longrightarrow> columna campo = Some f \<Longrightarrow>
   detectar_tendencia_significativa polyfit (map almacenado df) campo umbral notificar =
     Inr (Tupla4 (hay_tendencia (analizar polyfit df f umbral))
       (variacion_total (analizar polyfit df f umbral))
       (Informe campo (analizar polyfit df f umbral)
          (if hay_tendencia (analizar polyfit df f umbral)
           then Some (trend_type (preparar_detalles campo (analizar polyfit df f umbral)))
           else None))
       (preparar_detalles campo (analizar polyfit df f umbral)))"
  using columna_en_columnas [of campo f]
  by (auto simp: detectar_tendencia_significativa_def Let_def to_datetime_almacenado)

lemma detectar_tupla3:
  "length datos < 2 \<Longrightarrow>
   detectar_tendencia_significativa polyfit datos campo umbral notificar =
     Inr (Tupla3 False 0 DatosInsuficientes)"
  "2 \<le> length df \<Longrightarrow> campo \<notin> set columnas_df \<Longrightarrow>
   detectar_tendencia_significativa polyfit (map almacenado df) campo umbral notificar =
     Inr (Tupla3 False 0 (CampoNoExiste campo))"
  by (auto simp: detectar_tendencia_significativa_def to_datetime_almacenado)

lemma variacion_total_analizar:
  "variacion_total (analizar polyfit datos f umbral) =
     calcular_variacion_porcentual (f (hd datos)) (f (last datos))"
  by (simp add: analizar_def Let_def split: prod.splits)

lemma primer_ultimo_analizar:
  "primer_valor (analizar polyfit datos f umbral) = f (hd datos)"
  "ultimo_valor (analizar polyfit datos f umbral) = f (last datos)"
  by (simp_all add: analizar_def Let_def split: prod.splits)

lemma hay_tendencia_analizar:
  "hay_tendencia (analizar polyfit datos f umbral) \<longleftrightarrow>
     umbral \<le> \<bar>calcular_variacion_porcentual (f (hd datos)) (f (last datos))\<bar>
     \<or> umbral \<le> especificacion_variacion_maxima (especificacion_medias_por_hora datos f)"
  by (simp add: analizar_def Let_def variacion_maxima_spec medias_groupby split: prod.splits)

lemma volatilidad_analizar:
  "volatilidad_promedio (analizar polyfit datos f umbral) =
     mean_skipna (map desviacion (muestras_por_hora datos f))"
  by (simp add: analizar_def Let_def desviaciones_groupby split: prod.splits)

lemma pendiente_analizar:
  "pendiente (analizar polyfit datos f umbral) =
     (let y = especificacion_medias_por_hora datos f
      in if 1 < length y then fst (polyfit (arange (length y)) y) else 0)"
  "direccion_tendencia (analizar polyfit datos f umbral) =
     (let y = especificacion_medias_por_hora datos f
      in if 1 < length y
         then (if 0 < fst (polyfit (arange (length y)) y) then ''alcista'' else ''bajista'')
         else ''neutral'')"
  by (simp_all add: analizar_def Let_def medias_groupby arange_def longitud_groupby
      split: prod.splits)

section \<open>The examples, evaluated\<close>

lemma muestras_tres_horas:
  "muestras_por_hora ejemplo_tres_horas bol2usdt = [[100], [100], [103]]"
  by (simp add: grupos_hora_muestras [symmetric] grupos_hora_def ejemplo_tres_horas_def
      documento_ejemplo_def floor_H_def)

lemma muestras_volatilidad:
  "muestras_por_hora ejemplo_volatilidad bol2usdt = [[97, 100, 103], [100]]"
  by (simp add: grupos_hora_muestras [symmetric] grupos_hora_def ejemplo_volatilidad_def
      documento_ejemplo_def floor_H_def)

lemma muestras_discrepancia:
  "muestras_por_hora ejemplo_discrepancia bol2usdt = [[100], [90], [95], [99]]"
  by (simp add: grupos_hora_muestras [symmetric] grupos_hora_def ejemplo_discrepancia_def
      documento_ejemplo_def floor_H_def)

lemma sqrt_nueve: "sqrt 9 = 3"
  by (rule real_sqrt_unique) simp_all

lemma desviacion_muestral_ejemplo: "desviacion_muestral [97, 100, 103] = 3"
  by (simp add: desviacion_muestral_def promedio_def sqrt_nueve)

lemma muestras_una_hora:
  "muestras_por_hora ejemplo_una_hora bol2usdt = [[100, 103]]"
  by (simp add: grupos_hora_muestras [symmetric] grupos_hora_def ejemplo_una_hora_def
      documento_ejemplo_def floor_H_def)

lemma recta_discrepancia:
  "fst (recta_minimos_cuadrados (arange (Suc (Suc (Suc (Suc 0))))) [100, 90, 95, 99]) = 1 / 5"
  by (simp add: recta_minimos_cuadrados_def arange_def Let_def)

section \<open>Properties of detectar\_tendencia\_significativa: the guards\<close>

text \<open>
  C3, as the code has it. For every input with fewer than 2 samples, and for every input
  of at least 2 samples whose \<open>datetime\<close> values all parse and whose requested field is
  absent from the data, the analyzer returns a verdict with significant = false and
  variation 0, raises no exception and notifies nothing.
\<close>

theorem detectar_datos_insuficientes:
  "(length datos < 2 \<longrightarrow>
      detectar_tendencia_significativa polyfit datos campo umbral notificar =
        Inr (Tupla3 False 0 DatosInsuficientes)
      \<and> alerta_notificada polyfit datos campo umbral notificar = None)
   \<and> (2 \<le> length df \<and> campo \<notin> set columnas_df \<longrightarrow>
      detectar_tendencia_significativa polyfit (map almacenado df) campo umbral notificar =
        Inr (Tupla3 False 0 (CampoNoExiste campo))
      \<and> alerta_notificada polyfit (map almacenado df) campo umbral notificar = None)"
  by (simp add: detectar_tupla3 alerta_notificada_def)

theorem detectar_datos_insuficientes_witness:
  "length (tl ejemplo_ilegible) < 2
   \<and> detectar_tendencia_significativa recta_minimos_cuadrados (tl ejemplo_ilegible)
        ''bol2usdt'' 2 True = Inr (Tupla3 False 0 DatosInsuficientes)
   \<and> alerta_notificada recta_minimos_cuadrados (tl ejemplo_ilegible) ''bol2usdt'' 2 True = None
   \<and> 2 \<le> length ejemplo_tres_horas \<and> ''precio'' \<notin> set columnas_df
   \<and> detectar_tendencia_significativa recta_minimos_cuadrados
        (map almacenado ejemplo_tres_horas) ''precio'' 2 True =
        Inr (Tupla3 False 0 (CampoNoExiste ''precio''))
   \<and> alerta_notificada recta_minimos_cuadrados
        (map almacenado ejemplo_tres_horas) ''precio'' 2 True = None"
proof -
  have l: "length (tl ejemplo_ilegible) < 2" "2 \<le> length ejemplo_tres_horas"
    by (simp_all add: ejemplo_ilegible_def ejemplo_tres_horas_def)
  have c: "''precio'' \<notin> set columnas_df" by (simp add: columnas_df_def)
  show ?thesis
    using l c
      detectar_datos_insuficientes [of "tl ejemplo_ilegible" recta_minimos_cuadrados
        "''bol2usdt''" 2 True ejemplo_tres_horas]
      detectar_datos_insuficientes [of "tl ejemplo_ilegible" recta_minimos_cuadrados
        "''precio''" 2 True ejemplo_tres_horas]
    by simp
qed

text \<open>
  The claim as stated, for every input in which the field is absent, fails where a
  \<open>datetime\<close> is not a date: the column is parsed before the field is looked for, and the
  parse raises.
\<close>

theorem detectar_fecha_ilegible_counterexample:
  "2 \<le> length ejemplo_ilegible \<and> ''precio'' \<notin> set columnas_df
   \<and> detectar_tendencia_significativa recta_minimos_cuadrados ejemplo_ilegible ''precio'' 2 True
        = Inl ValueError"
  by (simp add: ejemplo_ilegible_def columnas_df_def detectar_tendencia_significativa_def
      almacenado_def)

text \<open>
  C9, as the code has it. With fewer than 2 samples, or with at least 2 samples whose
  \<open>datetime\<close> values all parse and with the field absent, the analyzer returns exactly 3
  components (flag, variation, message) and no details; with at least 2 such samples and
  a field that is one of the float columns it returns exactly 4 (flag, variation,
  message, details). Unpacking the 3-component result into four names raises ValueError,
  and so does \<open>analizar_tendencias\<close> on a single stored sample.
\<close>

theorem detectar_componentes:
  "(length datos < 2 \<longrightarrow>
      (\<exists>hay v msg. detectar_tendencia_significativa polyfit datos campo umbral notificar =
          Inr (Tupla3 hay v msg))
      \<and> llamar_y_desempaquetar
          (detectar_tendencia_significativa polyfit datos campo umbral notificar) = Inl ValueError)
   \<and> (2 \<le> length df \<and> campo \<notin> set columnas_df \<longrightarrow>
      (\<exists>hay v msg.
          detectar_tendencia_significativa polyfit (map almacenado df) campo umbral notificar =
            Inr (Tupla3 hay v msg))
      \<and> llamar_y_desempaquetar
          (detectar_tendencia_significativa polyfit (map almacenado df) campo umbral notificar)
            = Inl ValueError)
   \<and> (2 \<le> length df \<and> columna campo = Some f \<longrightarrow>
      (\<exists>hay v msg det.
          detectar_tendencia_significativa polyfit (map almacenado df) campo umbral notificar =
            Inr (Tupla4 hay v msg det)))
   \<and> analizar_tendencias polyfit (Some [d]) notificar = Inl ValueError"
proof -
  have uno: "analizar_tendencias polyfit (Some [d]) notificar = Inl ValueError"
    by (simp add: analizar_tendencias_def Let_def detectar_tupla3(1) llamar_y_desempaquetar_def)
  have cuatro: "\<exists>hay v msg det.
          detectar_tendencia_significativa polyfit (map almacenado df) campo umbral notificar =
            Inr (Tupla4 hay v msg det)" if "2 \<le> length df" "columna campo = Some f"
    using detectar_tupla4 [OF that] by blast
  have tres: "\<exists>hay v msg. detectar_tendencia_significativa polyfit datos campo umbral notificar =
          Inr (Tupla3 hay v msg)" if "length datos < 2"
    using detectar_tupla3(1) [OF that] by blast
  have ausente: "\<exists>hay v msg.
          detectar_tendencia_significativa polyfit (map almacenado df) campo umbral notificar =
            Inr (Tupla3 hay v msg)" if "2 \<le> length df" "campo \<notin> set columnas_df"
    using detectar_tupla3(2) [OF that] by blast
  have falla: "llamar_y_desempaquetar
          (detectar_tendencia_significativa polyfit datos campo umbral notificar) = Inl ValueError"
    if "length datos < 2"
    by (simp add: detectar_tupla3(1) [OF that] llamar_y_desempaquetar_def)
  have falla_ausente: "llamar_y_desempaquetar
          (detectar_tendencia_significativa polyfit (map almacenado df) campo umbral notificar)
            = Inl ValueError" if "2 \<le> length df" "campo \<notin> set columnas_df"
    by (simp add: detectar_tupla3(2) [OF that] llamar_y_desempaquetar_def)
  show ?thesis
    using uno cuatro tres ausente falla falla_ausente by blast
qed

theorem detectar_componentes_witness:
  "length (tl ejemplo_ilegible) < 2
   \<and> (\<exists>hay v msg. detectar_tendencia_significativa recta_minimos_cuadrados
         (tl ejemplo_ilegible) ''bol2usdt'' 2 True = Inr (Tupla3 hay v msg))
   \<and> 2 \<le> length ejemplo_tres_horas \<and> ''precio'' \<notin> set columnas_df
   \<and> llamar_y_desempaquetar (detectar_tendencia_significativa recta_minimos_cuadrados
         (map almacenado ejemplo_tres_horas) ''precio'' 2 True) = Inl ValueError
   \<and> columna ''bol2usdt'' = Some bol2usdt
   \<and> (\<exists>hay v msg det. detectar_tendencia_significativa recta_minimos_cuadrados
         (map almacenado ejemplo_tres_horas) ''bol2usdt'' 2 True = Inr (Tupla4 hay v msg det))
   \<and> analizar_tendencias recta_minimos_cuadrados
         (Some [almacenado (documento_ejemplo 1700002800 100)]) True = Inl ValueError"
proof -
  have l: "length (tl ejemplo_ilegible) < 2" "2 \<le> length ejemplo_tres_horas"
    by (simp_all add: ejemplo_ilegible_def ejemplo_tres_horas_def)
  have c: "''precio'' \<notin> set columnas_df" by (simp add: columnas_df_def)
  show ?thesis
    using l c columna_bol2usdt
      detectar_componentes [of "tl ejemplo_ilegible" recta_minimos_cuadrados "''bol2usdt''" 2 True
        ejemplo_tres_horas bol2usdt "almacenado (documento_ejemplo 1700002800 100)"]
      detectar_componentes [of "tl ejemplo_ilegible" recta_minimos_cuadrados "''precio''" 2 True
        ejemplo_tres_horas bol2usdt "almacenado (documento_ejemplo 1700002800 100)"]
    by simp
qed

text \<open>
  The claim as stated, 3 components or else 4 on every input, fails for the column
  \<open>datetime\<close>: it is present, so the field guard passes, and the percentage variation of
  two Timestamps raises TypeError.
\<close>

theorem detectar_columna_datetime_counterexample:
  "2 \<le> length (map almacenado ejemplo_tres_horas) \<and> ''datetime'' \<in> set columnas_df
   \<and> detectar_tendencia_significativa recta_minimos_cuadrados
        (map almacenado ejemplo_tres_horas) ''datetime'' 2 True = Inl TypeError"
proof -
  have l: "2 \<le> length (map almacenado ejemplo_tres_horas)"
    by (simp add: ejemplo_tres_horas_def)
  then show ?thesis
    by (auto simp: detectar_tendencia_significativa_def to_datetime_almacenado
        columna_no_numerica)
qed

section \<open>Properties of detectar\_tendencia\_significativa: the verdict\<close>

text \<open>
  C1. For every ordered series of at least 2 samples that contain the analysed field, and
  every threshold, the significance flag is true exactly when the absolute end-to-end
  percentage variation is at least the threshold or the maximum absolute percentage
  variation between consecutive hourly-bucket means is at least the threshold. For the
  values 100, 100, 103 in three consecutive hourly buckets and threshold 2.0 the total
  variation is 3.0 and the verdict is significant.
\<close>

theorem detectar_hay_tendencia:
  "(2 \<le> length df \<and> columna campo = Some f \<longrightarrow>
      (\<exists>msg det.
          detectar_tendencia_significativa polyfit (map almacenado df) campo umbral notificar =
          Inr (Tupla4 (umbral \<le> \<bar>calcular_variacion_porcentual (f (hd df)) (f (last df))\<bar>
                       \<or> umbral \<le> especificacion_variacion_maxima
                                     (especificacion_medias_por_hora df f))
                      (calcular_variacion_porcentual (f (hd df)) (f (last df))) msg det)))
   \<and> (\<exists>msg det.
        detectar_tendencia_significativa polyfit (map almacenado ejemplo_tres_horas)
          ''bol2usdt'' 2 notificar = Inr (Tupla4 True 3 msg det))"
proof -
  have general: "\<exists>msg det.
          detectar_tendencia_significativa polyfit (map almacenado df) campo umbral notificar =
          Inr (Tupla4 (umbral \<le> \<bar>calcular_variacion_porcentual (f (hd df)) (f (last df))\<bar>
                       \<or> umbral \<le> especificacion_variacion_maxima
                                     (especificacion_medias_por_hora df f))
                      (calcular_variacion_porcentual (f (hd df)) (f (last df))) msg det)"
    if "2 \<le> length df" "columna campo = Some f" for df campo f umbral
    using detectar_tupla4 [OF that, of polyfit umbral notificar]
    by (simp add: hay_tendencia_analizar variacion_total_analizar)
  have v: "calcular_variacion_porcentual (bol2usdt (hd ejemplo_tres_horas))
             (bol2usdt (last ejemplo_tres_horas)) = 3"
    by (simp add: ejemplo_tres_horas_def documento_ejemplo_def calcular_variacion_porcentual_def)
  have "2 \<le> length ejemplo_tres_horas" by (simp add: ejemplo_tres_horas_def)
  from general [OF this columna_bol2usdt, of 2] v
  have "\<exists>msg det.
        detectar_tendencia_significativa polyfit (map almacenado ejemplo_tres_horas)
          ''bol2usdt'' 2 notificar = Inr (Tupla4 True 3 msg det)"
    by simp
  with general show ?thesis by blast
qed

theorem detectar_hay_tendencia_witness:
  "2 \<le> length ejemplo_tres_horas \<and> columna ''bol2usdt'' = Some bol2usdt
   \<and> especificacion_medias_por_hora ejemplo_tres_horas bol2usdt = [100, 100, 103]
   \<and> especificacion_variacion_maxima [100, 100, 103] = 3
   \<and> (\<exists>msg det. detectar_tendencia_significativa recta_minimos_cuadrados
          (map almacenado ejemplo_tres_horas) ''bol2usdt'' 2 True = Inr (Tupla4 True 3 msg det))
   \<and> (\<exists>msg det. detectar_tendencia_significativa recta_minimos_cuadrados
          (map almacenado ejemplo_tres_horas) ''bol2usdt'' 4 True = Inr (Tupla4 False 3 msg det))"
proof -
  have l: "2 \<le> length ejemplo_tres_horas" by (simp add: ejemplo_tres_horas_def)
  have m: "especificacion_medias_por_hora ejemplo_tres_horas bol2usdt = [100, 100, 103]"
    by (simp add: especificacion_medias_por_hora_def muestras_tres_horas promedio_def)
  have x: "especificacion_variacion_maxima [100, 100, 103] = 3"
    by (simp add: variacion_maxima_spec [symmetric] calcular_variacion_porcentual_def)
  have v: "calcular_variacion_porcentual (bol2usdt (hd ejemplo_tres_horas))
             (bol2usdt (last ejemplo_tres_horas)) = 3"
    by (simp add: ejemplo_tres_horas_def documento_ejemplo_def calcular_variacion_porcentual_def)
  show ?thesis
    using l columna_bol2usdt m x v
      detectar_hay_tendencia [of ejemplo_tres_horas "''bol2usdt''" bol2usdt
        recta_minimos_cuadrados 2 True]
      detectar_hay_tendencia [of ejemplo_tres_horas "''bol2usdt''" bol2usdt
        recta_minimos_cuadrados 4 True]
    by simp
qed

text \<open>
  C2, as the code has it. For every analysed series of at least 2 samples in which some
  hourly bucket holds at least two samples, the average volatility is the arithmetic mean
  of the sample standard deviations of the buckets that hold at least two samples; a
  bucket of exactly one sample has no standard deviation and is left out of that mean.
\<close>

theorem volatilidad_promedio_horas_con_desviacion:
  "2 \<le> length df \<Longrightarrow> columna campo = Some f \<Longrightarrow>
   \<exists>vs \<in> set (muestras_por_hora df f). 2 \<le> length vs \<Longrightarrow>
   \<exists>hay v a alerta det.
      detectar_tendencia_significativa polyfit (map almacenado df) campo umbral notificar =
        Inr (Tupla4 hay v (Informe campo a alerta) det)
      \<and> volatilidad_promedio a = Some (volatilidad_sin_horas_unitarias df f)
      \<and> price_info det = (f (hd df), f (last df),
                           Some (volatilidad_sin_horas_unitarias df f))"
  using detectar_tupla4 [of df campo f polyfit umbral notificar]
  by (simp add: preparar_detalles_def volatilidad_analizar mean_skipna_desviaciones
      volatilidad_sin_horas_unitarias_def primer_ultimo_analizar)

theorem volatilidad_promedio_horas_con_desviacion_witness:
  "2 \<le> length ejemplo_volatilidad \<and> columna ''bol2usdt'' = Some bol2usdt
   \<and> (\<exists>vs \<in> set (muestras_por_hora ejemplo_volatilidad bol2usdt). 2 \<le> length vs)
   \<and> volatilidad_sin_horas_unitarias ejemplo_volatilidad bol2usdt = 3
   \<and> (\<exists>hay v a alerta det.
        detectar_tendencia_significativa recta_minimos_cuadrados
          (map almacenado ejemplo_volatilidad) ''bol2usdt'' 2 False =
          Inr (Tupla4 hay v (Informe ''bol2usdt'' a alerta) det)
        \<and> volatilidad_promedio a = Some 3 \<and> price_info det = (97, 100, Some 3))"
proof -
  have l: "2 \<le> length ejemplo_volatilidad" by (simp add: ejemplo_volatilidad_def)
  have e: "\<exists>vs \<in> set (muestras_por_hora ejemplo_volatilidad bol2usdt). 2 \<le> length vs"
    by (simp add: muestras_volatilidad)
  have v: "volatilidad_sin_horas_unitarias ejemplo_volatilidad bol2usdt = 3"
    by (simp add: volatilidad_sin_horas_unitarias_def muestras_volatilidad
        desviacion_muestral_ejemplo promedio_def)
  have p: "bol2usdt (hd ejemplo_volatilidad) = 97" "bol2usdt (last ejemplo_volatilidad) = 100"
    by (simp_all add: ejemplo_volatilidad_def documento_ejemplo_def)
  show ?thesis
    using l e v p volatilidad_promedio_horas_con_desviacion
      [OF l columna_bol2usdt e, of recta_minimos_cuadrados 2 False]
    by (simp add: columna_bol2usdt)
qed

text \<open>
  The claim as stated, that a one-sample bucket contributes 0 to the mean, fails for three
  samples 97, 100, 103 in one hour followed by one sample in the next: the code's average
  is 3, the stated one 3/2. The fit takes no part in it.
\<close>

theorem volatilidad_con_ceros_counterexample:
  "2 \<le> length ejemplo_volatilidad
   \<and> muestras_por_hora ejemplo_volatilidad bol2usdt = [[97, 100, 103], [100]]
   \<and> volatilidad_promedio (analizar recta_minimos_cuadrados ejemplo_volatilidad bol2usdt 2)
        = Some 3
   \<and> volatilidad_con_ceros ejemplo_volatilidad bol2usdt = 3 / 2
   \<and> volatilidad_promedio (analizar recta_minimos_cuadrados ejemplo_volatilidad bol2usdt 2)
        \<noteq> Some (volatilidad_con_ceros ejemplo_volatilidad bol2usdt)"
proof -
  have l: "2 \<le> length ejemplo_volatilidad" by (simp add: ejemplo_volatilidad_def)
  have a: "volatilidad_promedio (analizar recta_minimos_cuadrados ejemplo_volatilidad bol2usdt 2)
             = Some 3"
    using mean_skipna_desviaciones [of "[[97, 100, 103], [100]]"]
    by (simp add: volatilidad_analizar muestras_volatilidad desviacion_muestral_ejemplo
        promedio_def)
  have c: "volatilidad_con_ceros ejemplo_volatilidad bol2usdt = 3 / 2"
    by (simp add: volatilidad_con_ceros_def muestras_volatilidad desviacion_muestral_ejemplo
        promedio_def)
  show ?thesis using l a c by (simp add: muestras_volatilidad)
qed




text \<open>
  C10. For every analysed series of at least 2 samples that contain the field, the trend
  type in the alert details is decided by the sign of the total end-to-end variation
  alone: upward exactly when it is strictly positive, downward otherwise, also when it is
  0. The regression slope plays no part, and the two can disagree. For the hourly values
  100, 90, 95, 99 the trend type is downward while the exact slope is 1/5, so that every
  fit within 1/5 of it gives a positive slope and an upward direction; for two rising
  samples within one hour the trend type is upward while the direction is neutral.
\<close>

theorem trend_type_por_variacion_total:
  "(2 \<le> length df \<and> columna campo = Some f \<longrightarrow>
      (\<exists>hay msg det.
          detectar_tendencia_significativa polyfit (map almacenado df) campo umbral notificar =
          Inr (Tupla4 hay (calcular_variacion_porcentual (f (hd df)) (f (last df))) msg det)
        \<and> trend_type det =
            (if 0 < calcular_variacion_porcentual (f (hd df)) (f (last df))
             then ''ALCISTA'' else ''BAJISTA'')))
   \<and> fst (recta_minimos_cuadrados (arange 4) [100, 90, 95, 99]) = 1 / 5
   \<and> (\<bar>fst (polyfit (arange 4) [100, 90, 95, 99]) - 1 / 5\<bar> < 1 / 5 \<longrightarrow>
      (\<exists>hay v a alerta det.
        detectar_tendencia_significativa polyfit (map almacenado ejemplo_discrepancia)
          ''bol2usdt'' 2 notificar = Inr (Tupla4 hay v (Informe ''bol2usdt'' a alerta) det)
        \<and> trend_type det = ''BAJISTA'' \<and> variacion_total a = - 1
        \<and> direccion_tendencia a = ''alcista'' \<and> 0 < pendiente a))
   \<and> (\<exists>hay v a alerta det.
        detectar_tendencia_significativa polyfit (map almacenado ejemplo_una_hora)
          ''bol2usdt'' 2 notificar = Inr (Tupla4 hay v (Informe ''bol2usdt'' a alerta) det)
        \<and> trend_type det = ''ALCISTA'' \<and> variacion_total a = 3
        \<and> direccion_tendencia a = ''neutral'' \<and> pendiente a = 0)"
proof -
  have general: "\<exists>hay msg det.
          detectar_tendencia_significativa polyfit (map almacenado df) campo umbral notificar =
          Inr (Tupla4 hay (calcular_variacion_porcentual (f (hd df)) (f (last df))) msg det)
        \<and> trend_type det =
            (if 0 < calcular_variacion_porcentual (f (hd df)) (f (last df))
             then ''ALCISTA'' else ''BAJISTA'')"
    if "2 \<le> length df" "columna campo = Some f"
    using detectar_tupla4 [OF that, of polyfit umbral notificar]
    by (simp add: preparar_detalles_def variacion_total_analizar)
  have cuatro: "arange 4 = arange (Suc (Suc (Suc (Suc 0))))"
    by (simp add: numeral_eq_Suc)
  have exacta: "fst (recta_minimos_cuadrados (arange 4) [100, 90, 95, 99]) = 1 / 5"
    by (simp only: cuatro recta_discrepancia)
  have l: "2 \<le> length ejemplo_discrepancia" by (simp add: ejemplo_discrepancia_def)
  have m: "especificacion_medias_por_hora ejemplo_discrepancia bol2usdt = [100, 90, 95, 99]"
    by (simp add: especificacion_medias_por_hora_def muestras_discrepancia promedio_def)
  have v: "calcular_variacion_porcentual (bol2usdt (hd ejemplo_discrepancia))
             (bol2usdt (last ejemplo_discrepancia)) = - 1"
    by (simp add: ejemplo_discrepancia_def documento_ejemplo_def calcular_variacion_porcentual_def)
  have discrepa: "\<exists>hay v a alerta det.
        detectar_tendencia_significativa polyfit (map almacenado ejemplo_discrepancia)
          ''bol2usdt'' 2 notificar = Inr (Tupla4 hay v (Informe ''bol2usdt'' a alerta) det)
        \<and> trend_type det = ''BAJISTA'' \<and> variacion_total a = - 1
        \<and> direccion_tendencia a = ''alcista'' \<and> 0 < pendiente a"
    if "\<bar>fst (polyfit (arange 4) [100, 90, 95, 99]) - 1 / 5\<bar> < 1 / 5"
  proof -
    from that have "0 < fst (polyfit (arange (Suc (Suc (Suc (Suc 0))))) [100, 90, 95, 99])"
      unfolding cuatro by linarith
    then show ?thesis
      using detectar_tupla4 [OF l columna_bol2usdt, of polyfit 2 notificar]
      by (simp add: preparar_detalles_def variacion_total_analizar v pendiente_analizar m)
  qed
  have l1: "2 \<le> length ejemplo_una_hora" by (simp add: ejemplo_una_hora_def)
  have m1: "especificacion_medias_por_hora ejemplo_una_hora bol2usdt = [203 / 2]"
    by (simp add: especificacion_medias_por_hora_def muestras_una_hora promedio_def)
  have v1: "calcular_variacion_porcentual (bol2usdt (hd ejemplo_una_hora))
             (bol2usdt (last ejemplo_una_hora)) = 3"
    by (simp add: ejemplo_una_hora_def documento_ejemplo_def calcular_variacion_porcentual_def)
  have neutral: "\<exists>hay v a alerta det.
        detectar_tendencia_significativa polyfit (map almacenado ejemplo_una_hora)
          ''bol2usdt'' 2 notificar = Inr (Tupla4 hay v (Informe ''bol2usdt'' a alerta) det)
        \<and> trend_type det = ''ALCISTA'' \<and> variacion_total a = 3
        \<and> direccion_tendencia a = ''neutral'' \<and> pendiente a = 0"
    using detectar_tupla4 [OF l1 columna_bol2usdt, of polyfit 2 notificar]
    by (simp add: preparar_detalles_def variacion_total_analizar v1 pendiente_analizar m1)
  show ?thesis using general exacta discrepa neutral by blast
qed

theorem trend_type_por_variacion_total_witness:
  "2 \<le> length ejemplo_discrepancia \<and> columna ''bol2usdt'' = Some bol2usdt
   \<and> \<bar>fst (recta_minimos_cuadrados (arange 4) [100, 90, 95, 99]) - 1 / 5\<bar> < 1 / 5
   \<and> (\<exists>hay msg det. detectar_tendencia_significativa recta_minimos_cuadrados
          (map almacenado ejemplo_discrepancia) ''bol2usdt'' 2 True =
          Inr (Tupla4 hay (- 1) msg det) \<and> trend_type det = ''BAJISTA'')
   \<and> (\<exists>hay v a alerta det.
        detectar_tendencia_significativa recta_minimos_cuadrados
          (map almacenado ejemplo_discrepancia) ''bol2usdt'' 2 True =
          Inr (Tupla4 hay v (Informe ''bol2usdt'' a alerta) det)
        \<and> trend_type det = ''BAJISTA'' \<and> direccion_tendencia a = ''alcista'')"
proof -
  have l: "2 \<le> length ejemplo_discrepancia" by (simp add: ejemplo_discrepancia_def)
  have v: "calcular_variacion_porcentual (bol2usdt (hd ejemplo_discrepancia))
             (bol2usdt (last ejemplo_discrepancia)) = - 1"
    by (simp add: ejemplo_discrepancia_def documento_ejemplo_def calcular_variacion_porcentual_def)
  note t = trend_type_por_variacion_total
    [of ejemplo_discrepancia "''bol2usdt''" bol2usdt recta_minimos_cuadrados 2 True]
  from t have e: "fst (recta_minimos_cuadrados (arange 4) [100, 90, 95, 99]) = 1 / 5" by blast
  then have c: "\<bar>fst (recta_minimos_cuadrados (arange 4) [100, 90, 95, 99]) - 1 / 5\<bar> < 1 / 5"
    by simp
  have g: "\<exists>hay msg det. detectar_tendencia_significativa recta_minimos_cuadrados
          (map almacenado ejemplo_discrepancia) ''bol2usdt'' 2 True =
          Inr (Tupla4 hay (- 1) msg det) \<and> trend_type det = ''BAJISTA''"
    using t l columna_bol2usdt v by simp
  have d: "\<exists>hay v a alerta det.
        detectar_tendencia_significativa recta_minimos_cuadrados
          (map almacenado ejemplo_discrepancia) ''bol2usdt'' 2 True =
          Inr (Tupla4 hay v (Informe ''bol2usdt'' a alerta) det)
        \<and> trend_type det = ''BAJISTA'' \<and> direccion_tendencia a = ''alcista''"
    using t c by blast
  show ?thesis using l columna_bol2usdt c g d by blast
qed

end
